theory Spec2Isabelle
  imports Main "HOL-Library.Char_ord" "HOL-Library.List_Lexorder" "HOL-Library.Multiset"
begin

section \<open>Python text primitives\<close>

text \<open>
  Text is a list of characters, one \<^typ>\<open>char\<close> per code point below 256. The functions
  below are the \<^verbatim>\<open>str\<close> methods that \<^verbatim>\<open>scripts/dev/src2asciidoc.py\<close> calls,
  restricted to that range.
\<close>

text \<open>\<^verbatim>\<open>str.isspace\<close> on one character: TAB, LF, VT, FF, CR, FS, GS, RS, US, space,
  NEL and NBSP.\<close>

definition isspace :: "char \<Rightarrow> bool" where
  "isspace c \<longleftrightarrow> c \<in> set [CHR 0x09, CHR 0x0A, CHR 0x0B, CHR 0x0C, CHR 0x0D,
     CHR 0x1C, CHR 0x1D, CHR 0x1E, CHR 0x1F, CHR 0x20, CHR 0x85, CHR 0xA0]"

definition rstrip :: "string \<Rightarrow> string" where
  "rstrip s = rev (dropWhile isspace (rev s))"

definition strip :: "string \<Rightarrow> string" where
  "strip s = dropWhile isspace (rstrip s)"

text \<open>\<^verbatim>\<open>str.upper\<close>: the ASCII letters and the Latin-1 letters whose capital is again
  below 256. The three characters whose capital lies outside the range (0xB5, 0xDF, 0xFF)
  are left as they are.\<close>

definition upper_char :: "char \<Rightarrow> char" where
  "upper_char c =
     (let n = (of_char c :: nat)
      in if (97 \<le> n \<and> n \<le> 122) \<or> (224 \<le> n \<and> n \<le> 254 \<and> n \<noteq> 247)
         then char_of (n - 32) else c)"

definition upper :: "string \<Rightarrow> string" where
  "upper s = map upper_char s"

text \<open>\<^verbatim>\<open>sep.join(xs)\<close>.\<close>

fun join :: "string \<Rightarrow> string list \<Rightarrow> string" where
  "join sep [] = []"
| "join sep [x] = x"
| "join sep (x # y # ys) = x @ sep @ join sep (y # ys)"

text \<open>\<^verbatim>\<open>"'{}'".format(s)\<close>: the text between two apostrophes.\<close>

definition quoted :: "string \<Rightarrow> string" where
  "quoted s = CHR 0x27 # s @ [CHR 0x27]"

text \<open>Iterating over a text file opened with \<^verbatim>\<open>newline='\n'\<close>: the lines, each with its
  terminating LF; only the last one may lack it. \<open>cur\<close> is the line read so far.\<close>

fun lines_from :: "string \<Rightarrow> string \<Rightarrow> string list" where
  "lines_from cur [] = (if cur = [] then [] else [cur])"
| "lines_from cur (c # cs) =
     (if c = CHR 0x0A then (cur @ [c]) # lines_from [] cs else lines_from (cur @ [c]) cs)"

definition readlines :: "string \<Rightarrow> string list" where
  "readlines s = lines_from [] s"

section \<open>Errors and the file system\<close>

datatype error =
    Exception string
  | KeyError string
  | ValueError string
  | TypeError string
  | AttributeError string
  | IndexError string
  | FileNotFoundError string

text \<open>The files the script reads and writes: path to content.\<close>

type_synonym filesystem = "string \<rightharpoonup> string"

text \<open>\<^verbatim>\<open>tempfile.mkstemp()\<close> creates an empty file; its path \<open>tmpname\<close> is chosen by the
  operating system, among the paths that do not exist yet.\<close>

definition mkstemp :: "string \<Rightarrow> filesystem \<Rightarrow> filesystem" where
  "mkstemp tmpname fs = fs(tmpname \<mapsto> [])"

definition os_remove :: "filesystem \<Rightarrow> string \<Rightarrow> error + filesystem" where
  "os_remove fs path =
     (case fs path of
        None \<Rightarrow> Inl (FileNotFoundError path)
      | Some _ \<Rightarrow> Inr (fs(path := None)))"

definition shutil_move :: "filesystem \<Rightarrow> string \<Rightarrow> string \<Rightarrow> error + filesystem" where
  "shutil_move fs src dst =
     (case fs src of
        None \<Rightarrow> Inl (FileNotFoundError src)
      | Some c \<Rightarrow> Inr ((fs(src := None))(dst \<mapsto> c)))"

section \<open>The block patcher: \<^verbatim>\<open>_format_block\<close>\<close>

text \<open>The loop over the lines of the input file. The state is the text written to the
  temporary file so far and the two flags \<^verbatim>\<open>found_start\<close> and \<^verbatim>\<open>found_end\<close>. \<open>what\<close>
  is the block name after line 499 has upper-cased it; the end marker upper-cases it once
  more, as line 511 does.\<close>

fun copy_lines ::
  "string \<Rightarrow> string list \<Rightarrow> string list \<Rightarrow> string \<times> bool \<times> bool \<Rightarrow> string \<times> bool \<times> bool" where
  "copy_lines what data [] st = st"
| "copy_lines what data (line # rest) (temp, found_start, found_end) =
     (if strip line = ''// QUTE_'' @ what @ ''_START''
      then copy_lines what data rest (temp @ line @ concat data, True, found_end)
      else if strip line = ''// QUTE_'' @ upper what @ ''_END''
      then copy_lines what data rest (temp @ line, found_start, True)
      else if \<not> found_start \<or> found_end
      then copy_lines what data rest (temp @ line, found_start, found_end)
      else copy_lines what data rest (temp, found_start, found_end))"

text \<open>The whole function. The result is the file system after the call and either the
  exception raised or \<open>()\<close>. Every exception goes through the \<^verbatim>\<open>except\<close> clause, which
  removes the temporary file and raises again.\<close>

definition format_block ::
  "string \<Rightarrow> filesystem \<Rightarrow> string \<Rightarrow> string \<Rightarrow> string list \<Rightarrow> filesystem \<times> (error + unit)" where
  "format_block tmpname fs filename what0 data =
     (let what = upper what0;
          fs1 = mkstemp tmpname fs
      in case fs1 filename of
           None \<Rightarrow> (fs1(tmpname := None), Inl (FileNotFoundError filename))
         | Some content \<Rightarrow>
             (case copy_lines what data (readlines content) ([], False, False) of
                (temp, found_start, found_end) \<Rightarrow>
                  (let fs2 = fs1(tmpname \<mapsto> temp)
                   in if \<not> found_start
                      then (fs2(tmpname := None),
                            Inl (Exception (''Marker '' @ quoted (''// QUTE_'' @ what @ ''_START'')
                                  @ '' not found in '' @ quoted filename @ ''!'')))
                      else if \<not> found_end
                      then (fs2(tmpname := None),
                            Inl (Exception (''Marker '' @ quoted (''// QUTE_'' @ what @ ''_END'')
                                  @ '' not found in '' @ quoted filename @ ''!'')))
                      else (case os_remove fs2 filename of
                              Inl e \<Rightarrow> (fs2, Inl e)
                            | Inr fs3 \<Rightarrow>
                                (case shutil_move fs3 tmpname filename of
                                   Inl e \<Rightarrow> (fs3, Inl e)
                                 | Inr fs4 \<Rightarrow> (fs4, Inr ()))))))"

text \<open>The two sentinel lines of a block, as the loop compares them.\<close>

definition start_marker :: "string \<Rightarrow> string" where
  "start_marker what0 = ''// QUTE_'' @ upper what0 @ ''_START''"

definition end_marker :: "string \<Rightarrow> string" where
  "end_marker what0 = ''// QUTE_'' @ upper (upper what0) @ ''_END''"

definition is_start :: "string \<Rightarrow> string \<Rightarrow> bool" where
  "is_start what0 line \<longleftrightarrow> strip line = start_marker what0"

definition is_end :: "string \<Rightarrow> string \<Rightarrow> bool" where
  "is_end what0 line \<longleftrightarrow> strip line = end_marker what0"

definition is_marker :: "string \<Rightarrow> string \<Rightarrow> bool" where
  "is_marker what0 line \<longleftrightarrow> is_start what0 line \<or> is_end what0 line"

subsection \<open>Example files\<close>

text \<open>A file with the start sentinel of block \<open>options\<close> and no end sentinel, a file
  whose end sentinel comes first, and a file with a well-formed block \<open>foo\<close>.\<close>

definition missing_end_doc :: filesystem where
  "missing_end_doc = [''doc.asciidoc'' \<mapsto> ''intro\<newline>// QUTE_OPTIONS_START\<newline>old\<newline>'']"

definition reversed_doc :: filesystem where
  "reversed_doc = [''doc.asciidoc'' \<mapsto> ''a\<newline>// QUTE_OPTIONS_END\<newline>b\<newline>// QUTE_OPTIONS_START\<newline>c\<newline>'']"

definition block_doc :: filesystem where
  "block_doc = [''doc.asciidoc'' \<mapsto> ''a\<newline>// QUTE_FOO_START\<newline>b\<newline>// QUTE_FOO_END\<newline>c\<newline>'']"

section \<open>argparse actions\<close>

text \<open>An \<^verbatim>\<open>argparse.Action\<close>, with the attributes the script reads. \<open>metavar\<close> is absent,
  a string or a tuple of strings; \<open>choices\<close> holds \<^verbatim>\<open>str(e)\<close> of every choice, in
  iteration order; \<open>nargs\<close> is absent, an integer or one of argparse's strings
  (\<^verbatim>\<open>'?'\<close>, \<^verbatim>\<open>'*'\<close>, \<^verbatim>\<open>'+'\<close>, \<^verbatim>\<open>'...'\<close>, \<^verbatim>\<open>'A...'\<close>, \<^verbatim>\<open>'==SUPPRESS=='\<close>);
  \<open>help_text\<close> is the attribute \<^verbatim>\<open>help\<close>.\<close>

datatype metavar_value = MetavarStr string | MetavarTuple "string list"

datatype nargs_value = NargsInt int | NargsStr string

record action =
  dest :: string
  option_strings :: "string list"
  metavar :: "metavar_value option"
  choices :: "string list option"
  nargs :: "nargs_value option"
  help_text :: "string option"

text \<open>\<^verbatim>\<open>argparse.SUPPRESS\<close>.\<close>

definition SUPPRESS :: string where
  "SUPPRESS = ''==SUPPRESS==''"

text \<open>\<^verbatim>\<open>'{}'.format(v)\<close> for a value that is a string or \<^verbatim>\<open>None\<close>.\<close>

definition format_optional :: "string option \<Rightarrow> string" where
  "format_optional v = (case v of None \<Rightarrow> ''None'' | Some s \<Rightarrow> s)"

text \<open>\<^verbatim>\<open>_get_action_metavar(action, nargs)\<close>. The product \<^verbatim>\<open>[action.metavar] * nargs\<close> is
  the empty list for a negative integer and a \<^verbatim>\<open>TypeError\<close> for a string.\<close>

definition get_action_metavar :: "action \<Rightarrow> nargs_value \<Rightarrow> error + string" where
  "get_action_metavar action n =
     (case metavar action of
        Some (MetavarStr s) \<Rightarrow>
          (case n of
             NargsInt k \<Rightarrow> Inr (join '' '' (map quoted (replicate (nat k) s)))
           | NargsStr _ \<Rightarrow>
               Inl (TypeError (''can't multiply sequence by non-int of type '' @ quoted ''str'')))
      | Some (MetavarTuple elems) \<Rightarrow> Inr (join '' '' (map quoted elems))
      | None \<Rightarrow>
          (case choices action of
             Some cs \<Rightarrow> Inr (quoted (''{'' @ join '','' cs @ ''}''))
           | None \<Rightarrow> Inr (quoted (upper (dest action)))))"

text \<open>\<^verbatim>\<open>_format_action_args(action)\<close>. A call of \<^verbatim>\<open>_get_action_metavar(action)\<close> has
  the default \<^verbatim>\<open>nargs=1\<close>.\<close>

definition format_action_args :: "action \<Rightarrow> error + string" where
  "format_action_args action =
     (if nargs action = None then get_action_metavar action (NargsInt 1)
      else if nargs action = Some (NargsStr ''?'') then
        (case get_action_metavar action (NargsInt 1) of
           Inl e \<Rightarrow> Inl e
         | Inr mv \<Rightarrow> Inr (''['' @ mv @ '']''))
      else if nargs action = Some (NargsStr ''*'') then
        (case get_action_metavar action (NargsInt 1) of
           Inl e \<Rightarrow> Inl e
         | Inr mv \<Rightarrow> Inr (''['' @ mv @ '' ['' @ mv @ '' ...]]''))
      else if nargs action = Some (NargsStr ''+'') then
        (case get_action_metavar action (NargsInt 1) of
           Inl e \<Rightarrow> Inl e
         | Inr mv \<Rightarrow> Inr (mv @ '' ['' @ mv @ '' ...]''))
      else if nargs action = Some (NargsStr ''...'') then Inr ''...''
      else
        (case nargs action of
           None \<Rightarrow> get_action_metavar action (NargsInt 1)
         | Some n \<Rightarrow> get_action_metavar action n))"

text \<open>\<^verbatim>\<open>_format_action(action)\<close>: \<open>None\<close> for a suppressed action, else the invocation
  and the help text.\<close>

definition format_action :: "action \<Rightarrow> error + string option" where
  "format_action action =
     (if help_text action = Some SUPPRESS then Inr None
      else
        (case
           (if option_strings action = [] then
              (case get_action_metavar action (NargsInt 1) of
                 Inl e \<Rightarrow> Inl e
               | Inr mv \<Rightarrow> Inr (''*'' @ mv @ ''*::''))
            else if nargs action = Some (NargsInt 0) then
              Inr (join '', '' (map (\<lambda>s. ''*'' @ s @ ''*'') (option_strings action)) @ ''::'')
            else
              (case format_action_args action of
                 Inl e \<Rightarrow> Inl e
               | Inr args_string \<Rightarrow>
                   Inr (join '', '' (map (\<lambda>opt. ''*'' @ opt @ ''* '' @ args_string)
                                          (option_strings action)) @ ''::'')))
         of
           Inl e \<Rightarrow> Inl e
         | Inr invocation \<Rightarrow>
             Inr (Some (invocation @ ''\<newline>    '' @ format_optional (help_text action) @ ''\<newline>''))))"

section \<open>The manpage options: \<^verbatim>\<open>regenerate_manpage\<close>\<close>

record action_group =
  title :: "string option"
  description :: "string option"
  group_actions :: "action list"

datatype formatter_class = HelpFormatter | UsageFormatter | FormatterClass string

record argparser =
  formatter_class :: formatter_class
  action_groups :: "action_group list"
  epilog :: "string option"

text \<open>The inner loop of lines 541 to 544: the rendered actions of a group, the suppressed
  ones left out.\<close>

fun format_group_actions :: "action list \<Rightarrow> error + string list" where
  "format_group_actions [] = Inr []"
| "format_group_actions (action # rest) =
     (case format_action action of
        Inl e \<Rightarrow> Inl e
      | Inr action_data \<Rightarrow>
          (case format_group_actions rest of
             Inl e \<Rightarrow> Inl e
           | Inr groupdata \<Rightarrow>
               Inr (case action_data of None \<Rightarrow> groupdata | Some d \<Rightarrow> d # groupdata)))"

text \<open>The body of the outer loop, lines 537 to 545: the text of one group.\<close>

definition format_group :: "action_group \<Rightarrow> error + string" where
  "format_group grp =
     (case format_group_actions (group_actions grp) of
        Inl e \<Rightarrow> Inl e
      | Inr actions_data \<Rightarrow>
          Inr (join ''\<newline>''
                ([''=== '' @ format_optional (title grp)]
                 @ (case description grp of None \<Rightarrow> [] | Some d \<Rightarrow> [d])
                 @ actions_data)))"

fun format_groups :: "action_group list \<Rightarrow> error + string list" where
  "format_groups [] = Inr []"
| "format_groups (grp # rest) =
     (case format_group grp of
        Inl e \<Rightarrow> Inl e
      | Inr g \<Rightarrow>
          (case format_groups rest of
             Inl e \<Rightarrow> Inl e
           | Inr groups \<Rightarrow> Inr (g # groups)))"

text \<open>Lines 533 to 550: the text \<^verbatim>\<open>options\<close>.\<close>

definition manpage_options :: "argparser \<Rightarrow> error + string" where
  "manpage_options parser =
     (case format_groups (action_groups parser) of
        Inl e \<Rightarrow> Inl e
      | Inr groups \<Rightarrow>
          Inr (join ''\<newline>'' groups @ (case epilog parser of None \<Rightarrow> [] | Some ep \<Rightarrow> ep)))"

text \<open>\<^verbatim>\<open>regenerate_manpage(filename)\<close>, for the parser that \<^verbatim>\<open>qutebrowser.get_argparser()\<close>
  returns. The text \<^verbatim>\<open>options\<close> is passed as \<^verbatim>\<open>data\<close>; \<^verbatim>\<open>''.join\<close> then iterates over
  its characters.\<close>

definition regenerate_manpage ::
  "argparser \<Rightarrow> string \<Rightarrow> filesystem \<Rightarrow> string \<Rightarrow> filesystem \<times> (error + unit)" where
  "regenerate_manpage parser tmpname fs filename =
     (case manpage_options parser of
        Inl e \<Rightarrow> (fs, Inl e)
      | Inr options \<Rightarrow>
          format_block tmpname fs filename ''options'' (map (\<lambda>c. [c]) options))"

section \<open>The usage formatter\<close>

text \<open>Actions are objects: the formatter gets references to them. The store maps a
  reference to the action's attributes.\<close>

type_synonym action_ref = nat

type_synonym action_store = "action_ref \<Rightarrow> action"

text \<open>The first loop of \<^verbatim>\<open>UsageFormatter._format_actions_usage\<close> (lines 108 to 111):
  save a copy of the option strings of each action in the dictionary
  \<^verbatim>\<open>old_option_strings\<close>, keyed by the action object, and wrap each one in asterisks.\<close>

fun patch_option_strings ::
  "action_ref list \<Rightarrow> action_store \<times> (action_ref \<rightharpoonup> string list) \<Rightarrow>
   action_store \<times> (action_ref \<rightharpoonup> string list)" where
  "patch_option_strings [] st = st"
| "patch_option_strings (a # rest) (store, old_option_strings) =
     patch_option_strings rest
       (store(a := (store a)\<lparr>option_strings :=
                   map (\<lambda>s. ''*'' @ s @ ''*'') (option_strings (store a))\<rparr>),
        old_option_strings(a \<mapsto> option_strings (store a)))"

text \<open>The second loop (lines 113 and 114): put the saved option strings back.\<close>

fun restore_option_strings ::
  "action_ref list \<Rightarrow> (action_ref \<rightharpoonup> string list) \<Rightarrow> action_store \<Rightarrow>
   action_store \<times> (error + unit)" where
  "restore_option_strings [] old_option_strings store = (store, Inr ())"
| "restore_option_strings (a # rest) old_option_strings store =
     (case old_option_strings a of
        None \<Rightarrow> (store, Inl (KeyError ''action''))
      | Some saved \<Rightarrow>
          restore_option_strings rest old_option_strings
            (store(a := (store a)\<lparr>option_strings := saved\<rparr>)))"

text \<open>\<^verbatim>\<open>UsageFormatter._format_actions_usage(actions, groups)\<close>. The method of the base
  class, \<^verbatim>\<open>argparse.HelpFormatter._format_actions_usage\<close>, is the parameter \<open>base\<close>: it
  reads the actions and returns the usage text or raises. When it raises, the option
  strings are not put back.\<close>

definition format_actions_usage ::
  "(action_store \<Rightarrow> action_ref list \<Rightarrow> 'g \<Rightarrow> error + string) \<Rightarrow>
   action_store \<Rightarrow> action_ref list \<Rightarrow> 'g \<Rightarrow> action_store \<times> (error + string)" where
  "format_actions_usage base store actions grps =
     (case patch_option_strings actions (store, Map.empty) of
        (store1, old_option_strings) \<Rightarrow>
          (case base store1 actions grps of
             Inl e \<Rightarrow> (store1, Inl e)
           | Inr ret \<Rightarrow>
               (case restore_option_strings actions old_option_strings store1 of
                  (store2, Inl e) \<Rightarrow> (store2, Inl e)
                | (store2, Inr _) \<Rightarrow> (store2, Inr ret))))"

section \<open>Commands\<close>

text \<open>Modelled from the spec: the interaction modes (\<^verbatim>\<open>usertypes.KeyMode\<close>, declared
  outside the files at hand). \<open>normal\<close> is the default interaction mode; the others are
  told apart by their names.\<close>

datatype KeyMode = normal | OtherMode string

text \<open>What \<^verbatim>\<open>docutils.DocstringParser(cmd.handler)\<close> gives.\<close>

record docstring_parser =
  short_desc :: string
  long_desc :: string
  arg_descs :: "string \<rightharpoonup> string"

text \<open>Modelled from the spec: a parameter of the handler's signature, with its name and
  whether it is recognized as a count parameter, which the script computes as
  \<^verbatim>\<open>cmd.get_arg_info(param).value in cmd.COUNT_COMMAND_VALUES\<close> (the \<^verbatim>\<open>Command\<close> class is
  declared outside the files at hand).\<close>

record parameter =
  param_name :: string
  is_count :: bool

text \<open>The handler of a command, as the script inspects it: \<^verbatim>\<open>inspect.getdoc\<close>, the
  parsed docstring and the parameters of \<^verbatim>\<open>inspect.signature\<close>.\<close>

record handler_info =
  getdoc :: "string option"
  docstring :: docstring_parser
  parameters :: "parameter list"

text \<open>A \<^verbatim>\<open>Command\<close>. \<open>pos_args\<close> pairs an argument key with its display name;
  \<open>opt_args\<close> is the dictionary from an argument key to its long and short flag, in
  iteration order.\<close>

record command =
  name :: string
  handler :: handler_info
  parser :: argparser
  pos_args :: "(string \<times> string) list"
  opt_args :: "(string \<times> string \<times> string) list"
  modes :: "KeyMode set"
  debug :: bool
  deprecated :: bool
  maxsplit :: "int option"
  no_cmd_split :: bool
  no_replace_variables :: bool

text \<open>\<^verbatim>\<open>_get_cmd_syntax(_name, cmd)\<close>. \<^verbatim>\<open>cmd.parser.format_usage()\<close> is argparse's; it is
  the parameter \<open>format_usage\<close>, which takes the parser and returns the parser after the
  call and the usage text or the exception. When it raises, the formatter class is not
  put back.\<close>

definition get_cmd_syntax ::
  "(argparser \<Rightarrow> argparser \<times> (error + string)) \<Rightarrow> string \<Rightarrow> command \<Rightarrow>
   command \<times> (error + string)" where
  "get_cmd_syntax format_usage cmd_name cmd =
     (let old_fmt_class = formatter_class (parser cmd);
          parser1 = (parser cmd)\<lparr>formatter_class := UsageFormatter\<rparr>
      in case format_usage parser1 of
           (parser2, Inl e) \<Rightarrow> (cmd\<lparr>parser := parser2\<rparr>, Inl e)
         | (parser2, Inr usage) \<Rightarrow>
             (cmd\<lparr>parser := parser2\<lparr>formatter_class := old_fmt_class\<rparr>\<rparr>, Inr (rstrip usage)))"

text \<open>\<^verbatim>\<open>s.splitlines()[0]\<close>: the text before the first line boundary, and
  \<^verbatim>\<open>IndexError\<close> for the empty text.\<close>

definition is_linebreak :: "char \<Rightarrow> bool" where
  "is_linebreak c \<longleftrightarrow> c \<in> set [CHR 0x0A, CHR 0x0B, CHR 0x0C, CHR 0x0D,
     CHR 0x1C, CHR 0x1D, CHR 0x1E, CHR 0x85]"

definition first_line :: "string \<Rightarrow> error + string" where
  "first_line s =
     (if s = [] then Inl (IndexError ''list index out of range'')
      else Inr (takeWhile (\<lambda>c. \<not> is_linebreak c) s))"

text \<open>The rows of \<^verbatim>\<open>_get_command_quickref\<close> (lines 155 to 157).\<close>

fun quickref_rows :: "(string \<times> command) list \<Rightarrow> error + string list" where
  "quickref_rows [] = Inr []"
| "quickref_rows ((n, cmd) # rest) =
     (case getdoc (handler cmd) of
        None \<Rightarrow>
          Inl (AttributeError (quoted ''NoneType'' @ '' object has no attribute ''
                               @ quoted ''splitlines''))
      | Some doc \<Rightarrow>
          (case first_line doc of
             Inl e \<Rightarrow> Inl e
           | Inr desc \<Rightarrow>
               (case quickref_rows rest of
                  Inl e \<Rightarrow> Inl e
                | Inr out \<Rightarrow> Inr ((''|<<'' @ n @ '','' @ n @ ''>>|'' @ desc) # out))))"

definition get_command_quickref :: "(string \<times> command) list \<Rightarrow> error + string" where
  "get_command_quickref cmds =
     (case quickref_rows cmds of
        Inl e \<Rightarrow> Inl e
      | Inr rows \<Rightarrow>
          Inr (join ''\<newline>''
                ([''[options=\"header\",width=\"75%\",cols=\"25%,75%\"]'',
                  ''|=============='',
                  ''|Command|Description'']
                 @ rows @ [''|==============''])))"

section \<open>The documentation of one command\<close>

text \<open>The loop of lines 243 to 248. A missing description is the \<^verbatim>\<open>KeyError\<close> of the
  lookup, raised again with a message that names the key (as \<^verbatim>\<open>str\<close> of the first
  \<^verbatim>\<open>KeyError\<close> prints it, between apostrophes) and the command.\<close>

fun pos_args_docs :: "string \<Rightarrow> (string \<rightharpoonup> string) \<Rightarrow> (string \<times> string) list \<Rightarrow> error + string list" where
  "pos_args_docs cmdname descs [] = Inr []"
| "pos_args_docs cmdname descs ((arg, n) # rest) =
     (case descs arg of
        None \<Rightarrow>
          Inl (KeyError (''No description for arg '' @ quoted arg @ '' of command ''
                         @ quoted cmdname @ ''!''))
      | Some desc \<Rightarrow>
          (case pos_args_docs cmdname descs rest of
             Inl e \<Rightarrow> Inl e
           | Inr out \<Rightarrow> Inr ((''* +'' @ quoted n @ ''+: '' @ desc) # out)))"

text \<open>The loop of lines 253 to 259.\<close>

fun opt_args_docs ::
  "string \<Rightarrow> (string \<rightharpoonup> string) \<Rightarrow> (string \<times> string \<times> string) list \<Rightarrow> error + string list" where
  "opt_args_docs cmdname descs [] = Inr []"
| "opt_args_docs cmdname descs ((arg, long_flag, short_flag) # rest) =
     (case descs arg of
        None \<Rightarrow>
          Inl (KeyError (''No description for arg '' @ quoted arg @ '' of command ''
                         @ quoted cmdname @ ''!''))
      | Some desc \<Rightarrow>
          (case opt_args_docs cmdname descs rest of
             Inl e \<Rightarrow> Inl e
           | Inr out \<Rightarrow>
               Inr ((''* +*'' @ short_flag @ ''*+, +*'' @ long_flag @ ''*+: '' @ desc) # out)))"

text \<open>\<^verbatim>\<open>list(_get_command_doc_args(cmd, parser))\<close>; \<open>docparser\<close> is the argument
  \<^verbatim>\<open>parser\<close>.\<close>

definition get_command_doc_args :: "command \<Rightarrow> docstring_parser \<Rightarrow> error + string list" where
  "get_command_doc_args cmd docparser =
     (case (if pos_args cmd \<noteq> []
            then (case pos_args_docs (name cmd) (arg_descs docparser) (pos_args cmd) of
                    Inl e \<Rightarrow> Inl e
                  | Inr out \<Rightarrow> Inr ([[], ''==== positional arguments''] @ out))
            else Inr [])
      of
        Inl e \<Rightarrow> Inl e
      | Inr pos \<Rightarrow>
          (case (if opt_args cmd \<noteq> []
                 then (case opt_args_docs (name cmd) (arg_descs docparser) (opt_args cmd) of
                         Inl e \<Rightarrow> Inl e
                       | Inr out \<Rightarrow> Inr ([[], ''==== optional arguments''] @ out))
                 else Inr [])
           of
             Inl e \<Rightarrow> Inl e
           | Inr opt \<Rightarrow> Inr (pos @ opt)))"

text \<open>The loop of \<^verbatim>\<open>_get_command_doc_count\<close> over the parameters of the handler.\<close>

fun count_docs :: "string \<Rightarrow> (string \<rightharpoonup> string) \<Rightarrow> parameter list \<Rightarrow> error + string list" where
  "count_docs cmdname descs [] = Inr []"
| "count_docs cmdname descs (param # rest) =
     (if is_count param then
        (case (case descs (param_name param) of
                 Some desc \<Rightarrow> Inr desc
               | None \<Rightarrow>
                   (case descs ''count'' of
                      Some desc \<Rightarrow> Inr desc
                    | None \<Rightarrow>
                        Inl (KeyError (''No description for count arg '' @ quoted (param_name param)
                                       @ '' of command '' @ quoted cmdname @ ''!''))))
         of
           Inl e \<Rightarrow> Inl e
         | Inr desc \<Rightarrow>
             (case count_docs cmdname descs rest of
                Inl e \<Rightarrow> Inl e
              | Inr out \<Rightarrow> Inr ([[], ''==== count'', desc] @ out)))
      else count_docs cmdname descs rest)"

definition get_command_doc_count :: "command \<Rightarrow> docstring_parser \<Rightarrow> error + string list" where
  "get_command_doc_count cmd docparser =
     count_docs (name cmd) (arg_descs docparser) (parameters (handler cmd))"

text \<open>\<^verbatim>\<open>list(_get_command_doc_notes(cmd))\<close>.\<close>

definition get_command_doc_notes :: "command \<Rightarrow> string list" where
  "get_command_doc_notes cmd =
     (if maxsplit cmd \<noteq> None \<or> no_cmd_split cmd \<or>
         (no_replace_variables cmd \<and> name cmd \<noteq> ''spawn'')
      then [[], ''==== note'']
        @ (if maxsplit cmd \<noteq> None
           then [''* This command does not split arguments after the last ''
                 @ ''argument and handles quotes literally.'']
           else [])
        @ (if no_cmd_split cmd
           then [''* With this command, +;;+ is interpreted literally ''
                 @ ''instead of splitting off a second command.'']
           else [])
        @ (if no_replace_variables cmd \<and> name cmd \<noteq> ''spawn''
           then [''* This command does not replace variables like +'' @ [CHR 0x5C] @ ''{url''
                 @ [CHR 0x5C] @ ''}+.'']
           else [])
      else [])"

text \<open>\<^verbatim>\<open>_get_command_doc(name, cmd)\<close>. Of \<^verbatim>\<open>_get_cmd_syntax\<close> it uses the value
  returned.\<close>

definition get_command_doc ::
  "(argparser \<Rightarrow> argparser \<times> (error + string)) \<Rightarrow> string \<Rightarrow> command \<Rightarrow> error + string" where
  "get_command_doc format_usage n cmd =
     (case snd (get_cmd_syntax format_usage n cmd) of
        Inl e \<Rightarrow> Inl e
      | Inr syntax \<Rightarrow>
          (let docparser = docstring (handler cmd);
               output = [''[['' @ n @ '']]'', ''=== '' @ n]
                 @ (if syntax \<noteq> n then [''Syntax: +:'' @ syntax @ ''+'', []] else [])
                 @ [short_desc docparser]
                 @ (if long_desc docparser \<noteq> [] then [[], long_desc docparser] else [])
           in case get_command_doc_args cmd docparser of
                Inl e \<Rightarrow> Inl e
              | Inr args \<Rightarrow>
                  (case get_command_doc_count cmd docparser of
                     Inl e \<Rightarrow> Inl e
                   | Inr cnt \<Rightarrow>
                       Inr (join ''\<newline>''
                             (output @ args @ cnt @ get_command_doc_notes cmd @ [[], []])))))"

section \<open>The command reference: \<^verbatim>\<open>generate_commands\<close>\<close>

text \<open>The loop of lines 376 to 384 over \<^verbatim>\<open>objects.commands.items()\<close>. The state is the
  three lists \<^verbatim>\<open>normal_cmds\<close>, \<^verbatim>\<open>other_cmds\<close> and \<^verbatim>\<open>debug_cmds\<close>.\<close>

type_synonym buckets =
  "(string \<times> command) list \<times> (string \<times> command) list \<times> (string \<times> command) list"

fun classify_commands :: "(string \<times> command) list \<Rightarrow> buckets \<Rightarrow> buckets" where
  "classify_commands [] st = st"
| "classify_commands ((n, cmd) # rest) (normal_cmds, other_cmds, debug_cmds) =
     (if deprecated cmd then classify_commands rest (normal_cmds, other_cmds, debug_cmds)
      else if normal \<notin> modes cmd
      then classify_commands rest (normal_cmds, other_cmds @ [(n, cmd)], debug_cmds)
      else if debug cmd
      then classify_commands rest (normal_cmds, other_cmds, debug_cmds @ [(n, cmd)])
      else classify_commands rest (normal_cmds @ [(n, cmd)], other_cmds, debug_cmds))"

text \<open>Lines 373 to 387: the three lists after \<^verbatim>\<open>sort()\<close>. The registry is a dictionary, so
  no two entries have the same name and the order of the pairs is the order of their
  names.\<close>

definition command_buckets :: "(string \<times> command) list \<Rightarrow> buckets" where
  "command_buckets registry =
     (case classify_commands registry ([], [], []) of
        (normal_cmds, other_cmds, debug_cmds) \<Rightarrow>
          (sort_key fst normal_cmds, sort_key fst other_cmds, sort_key fst debug_cmds))"

text \<open>A loop \<^verbatim>\<open>for name, cmd in cmds: f.write(_get_command_doc(name, cmd))\<close>. The state is
  the text written to \<open>f\<close>; it is kept when a command raises.\<close>

fun write_command_docs ::
  "(argparser \<Rightarrow> argparser \<times> (error + string)) \<Rightarrow> (string \<times> command) list \<Rightarrow> string \<Rightarrow>
   string \<times> error option" where
  "write_command_docs format_usage [] f = (f, None)"
| "write_command_docs format_usage ((n, cmd) # rest) f =
     (case get_command_doc format_usage n cmd of
        Inl e \<Rightarrow> (f, Some e)
      | Inr doc \<Rightarrow> write_command_docs format_usage rest (f @ doc))"

text \<open>The quick reference and the documentation of one of the three lists.\<close>

definition write_commands ::
  "(argparser \<Rightarrow> argparser \<times> (error + string)) \<Rightarrow> (string \<times> command) list \<Rightarrow> string \<Rightarrow>
   string \<times> error option" where
  "write_commands format_usage cmds f =
     (case get_command_quickref cmds of
        Inl e \<Rightarrow> (f, Some e)
      | Inr quickref \<Rightarrow> write_command_docs format_usage cmds (f @ quickref @ ''\<newline>''))"

definition FILE_HEADER :: string where
  "FILE_HEADER = ''// DO NOT EDIT THIS FILE DIRECTLY!\<newline>''
     @ ''// It is autogenerated by running:\<newline>''
     @ ''//   $ python3 scripts/dev/src2asciidoc.py\<newline>''
     @ ''// vim: readonly:\<newline>''
     @ ''\<newline>''"

text \<open>\<^verbatim>\<open>generate_commands(filename)\<close>: the text written to the file and the exception
  raised, if any. \<open>commands_doc\<close> is \<^verbatim>\<open>commands.__doc__\<close> and \<open>registry\<close> is
  \<^verbatim>\<open>objects.commands.items()\<close>.\<close>

definition generate_commands ::
  "(argparser \<Rightarrow> argparser \<times> (error + string)) \<Rightarrow> string \<Rightarrow> (string \<times> command) list \<Rightarrow>
   string \<times> error option" where
  "generate_commands format_usage commands_doc registry =
     (case command_buckets registry of
        (normal_cmds, other_cmds, debug_cmds) \<Rightarrow>
          (case write_commands format_usage normal_cmds
                  (FILE_HEADER @ ''= Commands\<newline>\<newline>'' @ commands_doc @ ''\<newline>''
                   @ ''== Normal commands\<newline>'' @ ''.Quick reference\<newline>'') of
             (f, Some e) \<Rightarrow> (f, Some e)
           | (f, None) \<Rightarrow>
               (case write_commands format_usage other_cmds
                       (f @ ''\<newline>'' @ ''== Commands not usable in normal mode\<newline>''
                        @ ''.Quick reference\<newline>'') of
                  (f, Some e) \<Rightarrow> (f, Some e)
                | (f, None) \<Rightarrow>
                    write_commands format_usage debug_cmds
                      (f @ ''\<newline>'' @ ''== Debugging commands\<newline>''
                       @ ''These commands are mainly intended for debugging. They are ''
                       @ ''hidden if qutebrowser was started without the ''
                       @ ''`--debug`-flag.\<newline>''
                       @ ''\<newline>'' @ ''.Quick reference\<newline>''))))"

section \<open>The settings reference: \<^verbatim>\<open>_generate_setting_backend_info\<close>\<close>

text \<open>Modelled from the spec: the two backends (\<^verbatim>\<open>usertypes.Backend\<close>, declared outside the
  files at hand).\<close>

datatype Backend = QtWebKit | QtWebEngine

text \<open>A value of the per-backend override mapping: \<^verbatim>\<open>True\<close>, \<^verbatim>\<open>False\<close>, or any other
  value, kept as the text that \<^verbatim>\<open>format\<close> prints for it.\<close>

datatype conditional = Boolean bool | OtherValue string

text \<open>An option of \<^verbatim>\<open>configdata.DATA\<close>, with the two attributes that the backend
  information reads. \<open>raw_backends\<close> is a dictionary or \<^verbatim>\<open>None\<close>.\<close>

record setting_option =
  raw_backends :: "(string \<times> conditional) list option"
  backends :: "Backend list"

text \<open>The loop of lines 416 to 423, over the sorted items of the dictionary.\<close>

fun write_raw_backends :: "(string \<times> conditional) list \<Rightarrow> string \<Rightarrow> string" where
  "write_raw_backends [] f = f"
| "write_raw_backends ((n, Boolean True) # rest) f = write_raw_backends rest f"
| "write_raw_backends ((n, Boolean False) # rest) f =
     write_raw_backends rest (f @ ''\<newline>On '' @ n @ '', this setting is unavailable.\<newline>'')"
| "write_raw_backends ((n, OtherValue v) # rest) f =
     write_raw_backends rest
       (f @ ''\<newline>On '' @ n @ '', this setting requires '' @ v @ '' or newer.\<newline>'')"

text \<open>\<^verbatim>\<open>_generate_setting_backend_info(f, opt)\<close>: the text of \<open>f\<close> after the call, or the
  exception. \<open>repr_backends\<close> is \<^verbatim>\<open>repr\<close> on a list of backends.\<close>

definition generate_setting_backend_info ::
  "(Backend list \<Rightarrow> string) \<Rightarrow> string \<Rightarrow> setting_option \<Rightarrow> error + string" where
  "generate_setting_backend_info repr_backends f opt =
     (let all_backends = [QtWebKit, QtWebEngine]
      in case raw_backends opt of
           Some items \<Rightarrow> Inr (write_raw_backends (sort_key fst items) f)
         | None \<Rightarrow>
             if backends opt = all_backends then Inr f
             else if backends opt = [QtWebKit]
             then Inr (f @ ''\<newline>This setting is only available with the QtWebKit ''
                         @ ''backend.\<newline>'')
             else if backends opt = [QtWebEngine]
             then Inr (f @ ''\<newline>This setting is only available with the QtWebEngine ''
                         @ ''backend.\<newline>'')
             else Inl (ValueError (''Invalid value '' @ repr_backends (backends opt)
                                   @ '' for opt.backends'')))"

text \<open>The notice for one entry of the override mapping, in the words of the
  specification: nothing for \<open>true\<close>, "unavailable" for \<open>false\<close>, "requires ... or newer"
  for any other value.\<close>

fun spec_override_notice :: "string \<times> conditional \<Rightarrow> string" where
  "spec_override_notice (backend, Boolean True) = []"
| "spec_override_notice (backend, Boolean False) =
     ''\<newline>On '' @ backend @ '', this setting is unavailable.\<newline>''"
| "spec_override_notice (backend, OtherValue version) =
     ''\<newline>On '' @ backend @ '', this setting requires '' @ version @ '' or newer.\<newline>''"

text \<open>The argument keys of a command without a description, positional ones first, and
  the count parameters for which neither their name nor \<^verbatim>\<open>'count'\<close> has one.\<close>

definition missing_arg_keys :: "command \<Rightarrow> docstring_parser \<Rightarrow> string list" where
  "missing_arg_keys cmd docparser =
     filter (\<lambda>k. arg_descs docparser k = None) (map fst (pos_args cmd) @ map fst (opt_args cmd))"

definition missing_count_params :: "command \<Rightarrow> docstring_parser \<Rightarrow> string list" where
  "missing_count_params cmd docparser =
     map param_name
       (filter (\<lambda>p. is_count p \<and> arg_descs docparser (param_name p) = None
                     \<and> arg_descs docparser ''count'' = None)
          (parameters (handler cmd)))"

subsection \<open>Example actions\<close>

text \<open>An action that takes no value, an action whose help is suppressed, and a group.\<close>

definition version_action :: action where
  "version_action = \<lparr>dest = ''version'', option_strings = [''-V'', ''--version''],
     metavar = None, choices = None, nargs = Some (NargsInt 0),
     help_text = Some ''Show version and quit.''\<rparr>"

definition hidden_action :: action where
  "hidden_action = \<lparr>dest = ''no_err_windows'', option_strings = [''--no-err-windows''],
     metavar = None, choices = None, nargs = Some (NargsInt 0),
     help_text = Some ''==SUPPRESS==''\<rparr>"

definition debug_group :: action_group where
  "debug_group = \<lparr>title = Some ''debug arguments'', description = None, group_actions = []\<rparr>"

subsection \<open>Example commands\<close>

text \<open>A store of two actions, a base method that joins the option strings it reads, a
  \<^verbatim>\<open>format_usage\<close> that depends on the formatter class, and some commands.\<close>

definition example_store :: action_store where
  "example_store = (\<lambda>r. if r = 0 then version_action else hidden_action)"

definition example_base :: "action_store \<Rightarrow> action_ref list \<Rightarrow> unit \<Rightarrow> error + string" where
  "example_base store actions grps =
     Inr (join '' '' (concat (map (\<lambda>a. option_strings (store a)) actions)))"

definition example_format_usage :: "argparser \<Rightarrow> argparser \<times> (error + string)" where
  "example_format_usage p =
     (p, Inr (if formatter_class p = UsageFormatter then ''open [*--tab*] url\<newline>''
              else ''usage: open [--tab] url\<newline>''))"

definition open_cmd :: command where
  "open_cmd = \<lparr>name = ''open'',
     handler = \<lparr>getdoc = Some ''Open a URL.\<newline>\<newline>More text.'',
       docstring = \<lparr>short_desc = ''Open a URL.'', long_desc = [],
         arg_descs = [''url'' \<mapsto> ''The URL to open.'', ''tab'' \<mapsto> ''Open in a new tab.'',
                      ''count'' \<mapsto> ''The tab index.'']\<rparr>,
       parameters = [\<lparr>param_name = ''url'', is_count = False\<rparr>,
                     \<lparr>param_name = ''tab'', is_count = False\<rparr>,
                     \<lparr>param_name = ''count'', is_count = True\<rparr>]\<rparr>,
     parser = \<lparr>formatter_class = HelpFormatter, action_groups = [], epilog = None\<rparr>,
     pos_args = [(''url'', ''url'')],
     opt_args = [(''tab'', ''--tab'', ''-t'')],
     modes = {normal},
     debug = False, deprecated = False, maxsplit = None,
     no_cmd_split = False, no_replace_variables = False\<rparr>"

definition crash_cmd :: command where
  "crash_cmd = open_cmd\<lparr>name := ''debug-crash'', debug := True\<rparr>"

definition hint_cmd :: command where
  "hint_cmd = open_cmd\<lparr>name := ''follow-hint'', modes := {OtherMode ''hint''}, debug := True\<rparr>"

definition old_cmd :: command where
  "old_cmd = open_cmd\<lparr>name := ''old-open'', deprecated := True\<rparr>"

definition back_cmd :: command where
  "back_cmd = open_cmd\<lparr>name := ''back''\<rparr>"

definition paste_cmd :: command where
  "paste_cmd = open_cmd\<lparr>name := ''paste'', pos_args := [(''url'', ''url''), (''text'', ''text'')]\<rparr>"

text \<open>The conditions under which the loop appends a command to \<^verbatim>\<open>normal_cmds\<close>,
  \<^verbatim>\<open>other_cmds\<close> and \<^verbatim>\<open>debug_cmds\<close>.\<close>

definition in_normal :: "string \<times> command \<Rightarrow> bool" where
  "in_normal e \<longleftrightarrow> \<not> deprecated (snd e) \<and> normal \<in> modes (snd e) \<and> \<not> debug (snd e)"

definition in_other :: "string \<times> command \<Rightarrow> bool" where
  "in_other e \<longleftrightarrow> \<not> deprecated (snd e) \<and> normal \<notin> modes (snd e)"

definition in_debug :: "string \<times> command \<Rightarrow> bool" where
  "in_debug e \<longleftrightarrow> \<not> deprecated (snd e) \<and> normal \<in> modes (snd e) \<and> debug (snd e)"

definition example_registry :: "(string \<times> command) list" where
  "example_registry = [(''open'', open_cmd), (''old-open'', old_cmd), (''follow-hint'', hint_cmd),
     (''debug-crash'', crash_cmd), (''back'', back_cmd)]"

definition zoom_cmd :: command where
  "zoom_cmd = open_cmd\<lparr>name := ''zoom'',
     handler := \<lparr>getdoc = Some ''Set the zoom level.'',
       docstring = \<lparr>short_desc = ''Set the zoom level.'', long_desc = [],
         arg_descs = [''url'' \<mapsto> ''The URL.'', ''tab'' \<mapsto> ''Zoom in a new tab.'']\<rparr>,
       parameters = [\<lparr>param_name = ''url'', is_count = False\<rparr>,
                     \<lparr>param_name = ''level'', is_count = True\<rparr>]\<rparr>\<rparr>"

subsection \<open>Example settings\<close>

text \<open>An option for one backend, an option with an override mapping, an option whose
  list of backends is in the other order, and a \<^verbatim>\<open>repr\<close> for lists of backends.\<close>

definition webkit_only_option :: setting_option where
  "webkit_only_option = \<lparr>raw_backends = None, backends = [QtWebKit]\<rparr>"

definition override_option :: setting_option where
  "override_option = \<lparr>raw_backends = Some [(''QtWebKit'', Boolean False),
       (''QtWebEngine'', OtherValue ''Qt 5.15'')],
     backends = [QtWebEngine]\<rparr>"

definition reversed_option :: setting_option where
  "reversed_option = \<lparr>raw_backends = None, backends = [QtWebEngine, QtWebKit]\<rparr>"

definition example_repr :: "Backend list \<Rightarrow> string" where
  "example_repr bs = ''['' @ join '', '' (map (\<lambda>b. case b of QtWebKit \<Rightarrow> ''<Backend.QtWebKit: 1>''
      | QtWebEngine \<Rightarrow> ''<Backend.QtWebEngine: 2>'') bs) @ '']''"

text \<open>An option that takes two values and has no explicit metavar.\<close>

definition size_action :: action where
  "size_action = \<lparr>dest = ''size'', option_strings = [''--size''],
     metavar = None, choices = None, nargs = Some (NargsInt 2),
     help_text = Some ''Width and height.''\<rparr>"


section \<open>Lines\<close>

lemma concat_lines_from: "concat (lines_from cur s) = cur @ s"
  by (induction s arbitrary: cur) auto

lemma concat_readlines: "concat (readlines s) = s"
  by (simp add: readlines_def concat_lines_from)

lemma lines_from_line:
  "CHR 0x0A \<notin> set b \<Longrightarrow> lines_from cur (b @ CHR 0x0A # r) = (cur @ b @ [CHR 0x0A]) # lines_from [] r"
  by (induction b arbitrary: cur) auto

lemma lines_from_append:
  "a = [] \<or> last a = CHR 0x0A \<Longrightarrow>
   lines_from cur (a @ b) = (if a = [] then lines_from cur b else lines_from cur a @ lines_from [] b)"
proof (induction a arbitrary: cur)
  case Nil
  then show ?case by simp
next
  case (Cons c cs)
  show ?case
  proof (cases "cs = []")
    case True
    with Cons.prems show ?thesis by simp
  next
    case False
    with Cons.prems have "cs = [] \<or> last cs = CHR 0x0A" by simp
    from Cons.IH [OF this] False show ?thesis by simp
  qed
qed

lemma readlines_append:
  "a = [] \<or> last a = CHR 0x0A \<Longrightarrow> readlines (a @ b) = readlines a @ readlines b"
  by (simp add: readlines_def lines_from_append)

text \<open>A complete line: some text without LF, then LF.\<close>

definition full_line :: "string \<Rightarrow> bool" where
  "full_line l \<longleftrightarrow> l \<noteq> [] \<and> last l = CHR 0x0A \<and> CHR 0x0A \<notin> set (butlast l)"

lemma lines_from_Cons:
  "lines_from cur s = l # ls \<Longrightarrow> ls \<noteq> [] \<Longrightarrow>
   \<exists>b r. CHR 0x0A \<notin> set b \<and> s = b @ CHR 0x0A # r \<and> l = cur @ b @ [CHR 0x0A] \<and> ls = lines_from [] r"
proof (induction s arbitrary: cur)
  case Nil
  then show ?case by (simp split: if_splits)
next
  case (Cons c cs)
  show ?case
  proof (cases "c = CHR 0x0A")
    case True
    with Cons.prems have "l = cur @ [CHR 0x0A]" "ls = lines_from [] cs" by simp_all
    with True show ?thesis by (intro exI [of _ "[]"] exI [of _ cs]) simp
  next
    case False
    with Cons.prems have "lines_from (cur @ [c]) cs = l # ls" by simp
    from Cons.IH [OF this Cons.prems(2)] obtain b r where
      br: "CHR 0x0A \<notin> set b" "cs = b @ CHR 0x0A # r" "l = (cur @ [c]) @ b @ [CHR 0x0A]"
        "ls = lines_from [] r" by blast
    with False show ?thesis by (intro exI [of _ "c # b"] exI [of _ r]) simp
  qed
qed

lemma readlines_full_lines:
  "\<forall>l \<in> set xs. full_line l \<Longrightarrow> readlines (concat xs @ r) = xs @ readlines r"
proof (induction xs)
  case Nil
  then show ?case by simp
next
  case (Cons x xs)
  then have fx: "full_line x" and IH: "readlines (concat xs @ r) = xs @ readlines r" by simp_all
  from fx obtain b where x: "x = b @ [CHR 0x0A]" and b: "CHR 0x0A \<notin> set b"
    unfolding full_line_def by (metis append_butlast_last_id)
  have "readlines (concat (x # xs) @ r) = lines_from [] (b @ CHR 0x0A # (concat xs @ r))"
    by (simp add: readlines_def x)
  also have "\<dots> = x # lines_from [] (concat xs @ r)"
    using lines_from_line [OF b, of "[]"] by (simp add: x)
  finally show ?case using IH by (simp add: readlines_def)
qed

lemma readlines_split:
  "readlines c = xs @ ys \<Longrightarrow> ys \<noteq> [] \<Longrightarrow> (\<forall>l \<in> set xs. full_line l) \<and> readlines (concat ys) = ys"
proof (induction xs arbitrary: c)
  case Nil
  then show ?case using concat_readlines [of c] by simp
next
  case (Cons x xs)
  from Cons.prems have "lines_from [] c = x # (xs @ ys)" "xs @ ys \<noteq> []"
    by (simp_all add: readlines_def)
  from lines_from_Cons [OF this] obtain b r where
    br: "CHR 0x0A \<notin> set b" "c = b @ CHR 0x0A # r" "x = b @ [CHR 0x0A]" "xs @ ys = lines_from [] r"
    by auto
  from br(4) have "readlines r = xs @ ys" by (simp add: readlines_def)
  from Cons.IH [OF this Cons.prems(2)] br(1,3) show ?case
    by (simp add: full_line_def)
qed

section \<open>The copy loop\<close>

lemma of_char_char_of_small: "n < 256 \<Longrightarrow> of_char (char_of (n::nat)) = n"
  by simp

lemma upper_char_idem: "upper_char (upper_char c) = upper_char c"
proof -
  have lt: "(of_char c :: nat) < 256" by simp
  show ?thesis
    unfolding upper_char_def Let_def using lt
    by (auto simp: of_char_char_of_small)
qed

lemma upper_idem: "upper (upper s) = upper s"
  by (simp add: upper_def upper_char_idem)

lemma markers_differ: "''// QUTE_'' @ a @ ''_START'' \<noteq> ''// QUTE_'' @ b @ ''_END''"
proof
  assume "''// QUTE_'' @ a @ ''_START'' = ''// QUTE_'' @ b @ ''_END''"
  then have "last (''// QUTE_'' @ a @ ''_START'') = last (''// QUTE_'' @ b @ ''_END'')" by simp
  then show False by simp
qed

lemma start_not_end: "is_start w l \<Longrightarrow> \<not> is_end w l"
  using markers_differ by (auto simp: is_start_def is_end_def start_marker_def end_marker_def)

lemma copy_lines_append:
  "copy_lines w d (xs @ ys) st = copy_lines w d ys (copy_lines w d xs st)"
proof (induction xs arbitrary: st)
  case Nil
  then show ?case by simp
next
  case (Cons x xs)
  obtain t fs fe where "st = (t, fs, fe)" by (cases st) auto
  with Cons show ?case by simp
qed

lemma copy_lines_plain:
  "\<forall>l \<in> set ls. \<not> is_marker w0 l \<Longrightarrow>
   copy_lines (upper w0) d ls (t, fs, fe) = (if \<not> fs \<or> fe then t @ concat ls else t, fs, fe)"
  by (induction ls arbitrary: t)
     (auto simp: is_marker_def is_start_def is_end_def start_marker_def end_marker_def)

lemma copy_lines_start:
  "is_start w0 l \<Longrightarrow>
   copy_lines (upper w0) d (l # rest) (t, fs, fe) =
   copy_lines (upper w0) d rest (t @ l @ concat d, True, fe)"
  by (simp add: is_start_def start_marker_def)

lemma copy_lines_end:
  "is_end w0 l \<Longrightarrow>
   copy_lines (upper w0) d (l # rest) (t, fs, fe) =
   copy_lines (upper w0) d rest (t @ l, fs, True)"
  using markers_differ by (auto simp: is_end_def end_marker_def)

lemma copy_lines_found_start:
  "fst (snd (copy_lines (upper w0) d ls (t, fs, fe))) \<longleftrightarrow> fs \<or> (\<exists>l \<in> set ls. is_start w0 l)"
  by (induction ls arbitrary: t fs fe) (auto simp: is_start_def start_marker_def)

lemma copy_lines_found_end:
  "snd (snd (copy_lines (upper w0) d ls (t, fs, fe))) \<longleftrightarrow> fe \<or> (\<exists>l \<in> set ls. is_end w0 l)"
  using markers_differ
  by (induction ls arbitrary: t fs fe)
     (auto simp: is_end_def end_marker_def)

section \<open>The block patcher\<close>

text \<open>What \<^verbatim>\<open>_format_block\<close> returns, from what its loop returns: the file system is
  the one before the call when a marker is missing, and has the temporary text under the
  file's name otherwise. The temporary file is gone in every case.\<close>

lemma format_block_result:
  assumes tmp: "fs tmpname = None" and fexists: "fs filename = Some content"
    and loop: "copy_lines (upper what) data (readlines content) ([], False, False) = (temp, found_start, found_end)"
  shows "format_block tmpname fs filename what data =
     (if \<not> found_start
      then (fs, Inl (Exception (''Marker '' @ quoted (''// QUTE_'' @ upper what @ ''_START'')
                                  @ '' not found in '' @ quoted filename @ ''!'')))
      else if \<not> found_end
      then (fs, Inl (Exception (''Marker '' @ quoted (''// QUTE_'' @ upper what @ ''_END'')
                                  @ '' not found in '' @ quoted filename @ ''!'')))
      else (fs(filename \<mapsto> temp), Inr ()))"
proof -
  from tmp fexists have ne: "tmpname \<noteq> filename" by auto
  have restore: "(fs(tmpname \<mapsto> x))(tmpname := None) = fs" for x
    using tmp by (simp add: fun_upd_idem)
  have moved: "(fs(tmpname \<mapsto> temp, filename := None, tmpname := None))(filename \<mapsto> temp) = fs(filename \<mapsto> temp)"
    using tmp ne by (auto simp: fun_eq_iff)
  show ?thesis
    unfolding format_block_def Let_def mkstemp_def
    using ne fexists loop restore moved
    by (simp add: os_remove_def shutil_move_def)
qed

lemma copy_lines_block:
  assumes "is_start w s" "is_end w e"
    and "\<forall>l \<in> set (pre @ mid @ suf). \<not> is_marker w l"
  shows "copy_lines (upper w) d (pre @ [s] @ mid @ [e] @ suf) ([], False, False) =
         (concat pre @ s @ concat d @ e @ concat suf, True, True)"
  using assms
  by (simp add: copy_lines_append copy_lines_plain copy_lines_start copy_lines_end
        del: copy_lines.simps(2))

lemma copy_lines_reversed:
  assumes "is_start w s" "is_end w e"
    and "\<forall>l \<in> set (pre @ mid @ suf). \<not> is_marker w l"
  shows "copy_lines (upper w) d (pre @ [e] @ mid @ [s] @ suf) ([], False, False) =
         (concat pre @ e @ concat mid @ s @ concat d @ concat suf, True, True)"
  using assms
  by (simp add: copy_lines_append copy_lines_plain copy_lines_start copy_lines_end
        del: copy_lines.simps(2))

text \<open>Claim C1. Let the target file exist and the temporary path be fresh. If no line of the
  file is the start sentinel of the block, or no line is its end sentinel, then
  \<^verbatim>\<open>_format_block\<close> raises \<^verbatim>\<open>Exception\<close> with the message
  \<^verbatim>\<open>Marker '<marker>' not found in '<filename>'!\<close>, where the marker named is one that is
  missing (the start sentinel when there is none, the end sentinel otherwise), and the file
  system after the call is the file system before it: the target file has its old content
  and the temporary file does not exist.\<close>

theorem format_block_missing_marker:
  assumes tmp: "fs tmpname = None" and fexists: "fs filename = Some content"
    and missing: "(\<forall>l \<in> set (readlines content). \<not> is_start what l) \<or>
                  (\<forall>l \<in> set (readlines content). \<not> is_end what l)"
  shows "format_block tmpname fs filename what data =
     (fs, Inl (Exception (''Marker '' @
        quoted (if \<exists>l \<in> set (readlines content). is_start what l
                then ''// QUTE_'' @ upper what @ ''_END''
                else ''// QUTE_'' @ upper what @ ''_START'')
        @ '' not found in '' @ quoted filename @ ''!'')))"
proof -
  obtain temp found_start found_end where
    loop: "copy_lines (upper what) data (readlines content) ([], False, False) = (temp, found_start, found_end)"
    by (cases "copy_lines (upper what) data (readlines content) ([], False, False)") auto
  from copy_lines_found_start [of what data "readlines content" "[]" False False] loop
  have s: "found_start \<longleftrightarrow> (\<exists>l \<in> set (readlines content). is_start what l)" by simp
  from copy_lines_found_end [of what data "readlines content" "[]" False False] loop
  have e: "found_end \<longleftrightarrow> (\<exists>l \<in> set (readlines content). is_end what l)" by simp
  from missing s e have "\<not> found_start \<or> \<not> found_end" by blast
  with format_block_result [OF tmp fexists loop] s show ?thesis by auto
qed

theorem format_block_missing_marker_witness:
  "format_block ''tmp0'' missing_end_doc ''doc.asciidoc'' ''options'' [''new\<newline>''] =
     (missing_end_doc,
      Inl (Exception (''Marker '' @ quoted ''// QUTE_OPTIONS_END'' @ '' not found in ''
                      @ quoted ''doc.asciidoc'' @ ''!'')))"
proof -
  let ?c = "''intro\<newline>// QUTE_OPTIONS_START\<newline>old\<newline>''"
  have t: "missing_end_doc ''tmp0'' = None" by (simp add: missing_end_doc_def)
  have f: "missing_end_doc ''doc.asciidoc'' = Some ?c" by (simp add: missing_end_doc_def)
  have e: "\<forall>l \<in> set (readlines ?c). \<not> is_end ''options'' l" by code_simp
  have s: "\<exists>l \<in> set (readlines ?c). is_start ''options'' l" by code_simp
  have u: "upper ''options'' = ''OPTIONS''" by code_simp
  from e have m: "(\<forall>l \<in> set (readlines ?c). \<not> is_start ''options'' l) \<or>
      (\<forall>l \<in> set (readlines ?c). \<not> is_end ''options'' l)" by (rule disjI2)
  from format_block_missing_marker [OF t f m, of "[''new\<newline>'']"] s e u
  show ?thesis by simp
qed

text \<open>Claim C2, amended. Let the lines of the file be a prefix, the start sentinel line, some
  lines, the end sentinel line and a suffix, with no other sentinel line of this block.
  Replacing the block by \<open>x\<close> gives prefix, start sentinel line, \<open>x\<close>, end sentinel line,
  suffix. If moreover \<open>x\<close> is empty or ends with a line feed, and no line of \<open>x\<close> is a
  sentinel line, then replacing the block again by \<open>y\<close> gives the same file with \<open>y\<close> in
  the place of \<open>x\<close>.\<close>

theorem format_block_round_trip:
  assumes tmp: "fs tmpname = None" and fexists: "fs filename = Some content"
    and lines: "readlines content = pre @ [s] @ mid @ [e] @ suf"
    and s: "is_start what s" and e: "is_end what e"
    and others: "\<forall>l \<in> set (pre @ mid @ suf). \<not> is_marker what l"
  shows "format_block tmpname fs filename what x =
           (fs(filename \<mapsto> concat pre @ s @ concat x @ e @ concat suf), Inr ()) \<and>
         ((concat x = [] \<or> last (concat x) = CHR 0x0A) \<and>
          (\<forall>l \<in> set (readlines (concat x)). \<not> is_marker what l) \<longrightarrow>
          format_block tmpname (fst (format_block tmpname fs filename what x)) filename what y =
           (fs(filename \<mapsto> concat pre @ s @ concat y @ e @ concat suf), Inr ()))"
proof -
  have first: "format_block tmpname fs filename what x =
      (fs(filename \<mapsto> concat pre @ s @ concat x @ e @ concat suf), Inr ())"
    using format_block_result [OF tmp fexists, of what x] copy_lines_block [OF s e others, of x]
    by (simp add: lines)
  have second: "format_block tmpname (fst (format_block tmpname fs filename what x)) filename what y =
      (fs(filename \<mapsto> concat pre @ s @ concat y @ e @ concat suf), Inr ())"
    if nl: "concat x = [] \<or> last (concat x) = CHR 0x0A"
      and plain: "\<forall>l \<in> set (readlines (concat x)). \<not> is_marker what l"
  proof -
    let ?c1 = "concat pre @ s @ concat x @ e @ concat suf"
    let ?fs1 = "fs(filename \<mapsto> ?c1)"
    from tmp fexists have ne: "tmpname \<noteq> filename" by auto
    then have tmp1: "?fs1 tmpname = None" using tmp by simp
    have file1: "?fs1 filename = Some ?c1" by simp
    from lines have "readlines content = (pre @ [s] @ mid) @ (e # suf)" by simp
    from readlines_split [OF this]
    have full: "\<forall>l \<in> set (pre @ [s]). full_line l" and tail: "readlines (concat (e # suf)) = e # suf"
      by simp_all
    have "?c1 = concat (pre @ [s]) @ (concat x @ concat (e # suf))" by simp
    then have "readlines ?c1 = (pre @ [s]) @ readlines (concat x @ concat (e # suf))"
      using readlines_full_lines [OF full] by metis
    also have "readlines (concat x @ concat (e # suf)) = readlines (concat x) @ e # suf"
      using readlines_append [OF nl] tail by simp
    finally have lines1: "readlines ?c1 = pre @ [s] @ readlines (concat x) @ [e] @ suf" by simp
    from others plain have others1: "\<forall>l \<in> set (pre @ readlines (concat x) @ suf). \<not> is_marker what l"
      by auto
    have loop1: "copy_lines (upper what) y (readlines ?c1) ([], False, False) =
        (concat pre @ s @ concat y @ e @ concat suf, True, True)"
      using copy_lines_block [OF s e others1, of y] by (simp only: lines1)
    have "format_block tmpname ?fs1 filename what y =
        (?fs1(filename \<mapsto> concat pre @ s @ concat y @ e @ concat suf), Inr ())"
      using format_block_result [of ?fs1 tmpname filename ?c1 what y, OF tmp1 file1 loop1] by simp
    then show ?thesis by (simp add: first)
  qed
  from first second show ?thesis by blast
qed

theorem format_block_round_trip_witness:
  "format_block ''tmp0'' block_doc ''doc.asciidoc'' ''foo'' [''x1\<newline>'', ''x2\<newline>''] =
     (block_doc(''doc.asciidoc'' \<mapsto>
        ''a\<newline>// QUTE_FOO_START\<newline>x1\<newline>x2\<newline>// QUTE_FOO_END\<newline>c\<newline>''), Inr ()) \<and>
   format_block ''tmp0''
     (fst (format_block ''tmp0'' block_doc ''doc.asciidoc'' ''foo'' [''x1\<newline>'', ''x2\<newline>'']))
     ''doc.asciidoc'' ''foo'' [''y\<newline>''] =
     (block_doc(''doc.asciidoc'' \<mapsto>
        ''a\<newline>// QUTE_FOO_START\<newline>y\<newline>// QUTE_FOO_END\<newline>c\<newline>''), Inr ())"
proof -
  let ?c = "''a\<newline>// QUTE_FOO_START\<newline>b\<newline>// QUTE_FOO_END\<newline>c\<newline>''"
  let ?x = "[''x1\<newline>'', ''x2\<newline>'']"
  have t: "block_doc ''tmp0'' = None" by (simp add: block_doc_def)
  have f: "block_doc ''doc.asciidoc'' = Some ?c" by (simp add: block_doc_def)
  have r: "readlines ?c = [''a\<newline>''] @ [''// QUTE_FOO_START\<newline>''] @ [''b\<newline>'']
      @ [''// QUTE_FOO_END\<newline>''] @ [''c\<newline>'']" by code_simp
  have s: "is_start ''foo'' ''// QUTE_FOO_START\<newline>''" by code_simp
  have e: "is_end ''foo'' ''// QUTE_FOO_END\<newline>''" by code_simp
  have o: "\<forall>l \<in> set ([''a\<newline>''] @ [''b\<newline>''] @ [''c\<newline>'']). \<not> is_marker ''foo'' l"
    by code_simp
  have n: "concat ?x = [] \<or> last (concat ?x) = CHR 0x0A" by simp
  have p: "\<forall>l \<in> set (readlines (concat ?x)). \<not> is_marker ''foo'' l" by code_simp
  note rt = format_block_round_trip [OF t f r s e o, of ?x "[''y\<newline>'']"]
  from conjunct1 [OF rt] have a:
    "format_block ''tmp0'' block_doc ''doc.asciidoc'' ''foo'' ?x =
     (block_doc(''doc.asciidoc'' \<mapsto>
        ''a\<newline>// QUTE_FOO_START\<newline>x1\<newline>x2\<newline>// QUTE_FOO_END\<newline>c\<newline>''), Inr ())"
    by simp
  from conjunct2 [OF rt] n p have b:
    "format_block ''tmp0'' (fst (format_block ''tmp0'' block_doc ''doc.asciidoc'' ''foo'' ?x))
       ''doc.asciidoc'' ''foo'' [''y\<newline>''] =
     (block_doc(''doc.asciidoc'' \<mapsto>
        ''a\<newline>// QUTE_FOO_START\<newline>y\<newline>// QUTE_FOO_END\<newline>c\<newline>''), Inr ())"
    by simp
  from a b show ?thesis by (rule conjI)
qed

text \<open>Claim C2 as stated fails when \<open>x\<close> does not end with a line feed: the text \<open>x\<close>
  is written as it is, the end sentinel then shares its line with the last characters of
  \<open>x\<close>, and the second call does not find it.\<close>

theorem format_block_round_trip_counterexample:
  "\<not> is_marker ''foo'' ''x'' \<and>
   fst (format_block ''tmp0'' block_doc ''doc.asciidoc'' ''foo'' [''x'']) ''doc.asciidoc'' =
     Some ''a\<newline>// QUTE_FOO_START\<newline>x// QUTE_FOO_END\<newline>c\<newline>'' \<and>
   snd (format_block ''tmp0'' (fst (format_block ''tmp0'' block_doc ''doc.asciidoc'' ''foo'' [''x'']))
          ''doc.asciidoc'' ''foo'' [''y'']) =
     Inl (Exception (''Marker '' @ quoted ''// QUTE_FOO_END'' @ '' not found in ''
                      @ quoted ''doc.asciidoc'' @ ''!''))"
  by code_simp

text \<open>Claim C10. Let the end sentinel line come before the start sentinel line, each once.
  Then \<^verbatim>\<open>_format_block\<close> raises nothing, and the new file is the old one, every line of
  it, with the new content right after the start sentinel line.\<close>

theorem format_block_end_before_start:
  assumes tmp: "fs tmpname = None" and fexists: "fs filename = Some content"
    and lines: "readlines content = pre @ [e] @ mid @ [s] @ suf"
    and e: "is_end what e" and s: "is_start what s"
    and others: "\<forall>l \<in> set (pre @ mid @ suf). \<not> is_marker what l"
  shows "format_block tmpname fs filename what data =
     (fs(filename \<mapsto> concat pre @ e @ concat mid @ s @ concat data @ concat suf), Inr ())"
  using format_block_result [OF tmp fexists, of what data] copy_lines_reversed [OF s e others, of data]
  by (simp add: lines)

theorem format_block_end_before_start_witness:
  "format_block ''tmp0'' reversed_doc ''doc.asciidoc'' ''options'' [''new\<newline>''] =
     (reversed_doc(''doc.asciidoc'' \<mapsto>
        ''a\<newline>// QUTE_OPTIONS_END\<newline>b\<newline>// QUTE_OPTIONS_START\<newline>new\<newline>c\<newline>''), Inr ())"
proof -
  let ?c = "''a\<newline>// QUTE_OPTIONS_END\<newline>b\<newline>// QUTE_OPTIONS_START\<newline>c\<newline>''"
  have t: "reversed_doc ''tmp0'' = None" by (simp add: reversed_doc_def)
  have f: "reversed_doc ''doc.asciidoc'' = Some ?c" by (simp add: reversed_doc_def)
  have r: "readlines ?c = [''a\<newline>''] @ [''// QUTE_OPTIONS_END\<newline>''] @ [''b\<newline>'']
      @ [''// QUTE_OPTIONS_START\<newline>''] @ [''c\<newline>'']" by code_simp
  have e: "is_end ''options'' ''// QUTE_OPTIONS_END\<newline>''" by code_simp
  have s: "is_start ''options'' ''// QUTE_OPTIONS_START\<newline>''" by code_simp
  have o: "\<forall>l \<in> set ([''a\<newline>''] @ [''b\<newline>''] @ [''c\<newline>'']). \<not> is_marker ''options'' l"
    by code_simp
  from format_block_end_before_start [OF t f r e s o, of "[''new\<newline>'']"]
  show ?thesis by simp
qed

section \<open>Suppressed actions\<close>

lemma format_action_None: "help_text a = Some SUPPRESS \<Longrightarrow> format_action a = Inr None"
  by (simp add: format_action_def)

lemma format_group_actions_suppressed:
  assumes "help_text a = Some SUPPRESS"
  shows "format_group_actions (as1 @ a # as2) = format_group_actions (as1 @ as2)"
proof (induction as1)
  case Nil
  show ?case using format_action_None [OF assms] by (simp split: sum.splits)
next
  case (Cons b as1)
  then show ?case by (simp split: sum.splits)
qed

lemma format_groups_cong:
  assumes "format_group g = format_group g'"
  shows "format_groups (gs1 @ g # gs2) = format_groups (gs1 @ g' # gs2)"
proof (induction gs1)
  case Nil
  show ?case using assms by simp
next
  case (Cons h gs1)
  then show ?case by (simp split: sum.splits)
qed

text \<open>Claim C8. For an action whose help text is \<^verbatim>\<open>argparse.SUPPRESS\<close>,
  \<^verbatim>\<open>_format_action\<close> returns \<^verbatim>\<open>None\<close>; the text of its group is the text of the group
  without the action, and so is what \<^verbatim>\<open>regenerate_manpage\<close> does to the file.\<close>

theorem format_action_suppressed:
  assumes "help_text a = Some SUPPRESS"
  shows "format_action a = Inr None \<and>
         format_group (g\<lparr>group_actions := as1 @ a # as2\<rparr>) =
           format_group (g\<lparr>group_actions := as1 @ as2\<rparr>) \<and>
         regenerate_manpage (p\<lparr>action_groups := gs1 @ g\<lparr>group_actions := as1 @ a # as2\<rparr> # gs2\<rparr>)
             tmpname fs filename =
           regenerate_manpage (p\<lparr>action_groups := gs1 @ g\<lparr>group_actions := as1 @ as2\<rparr> # gs2\<rparr>)
             tmpname fs filename"
proof -
  have a: "format_action a = Inr None" using assms by (rule format_action_None)
  have g: "format_group (g\<lparr>group_actions := as1 @ a # as2\<rparr>) =
      format_group (g\<lparr>group_actions := as1 @ as2\<rparr>)"
    using format_group_actions_suppressed [OF assms, of as1 as2] by (simp add: format_group_def split: sum.splits)
  have "manpage_options (p\<lparr>action_groups := gs1 @ g\<lparr>group_actions := as1 @ a # as2\<rparr> # gs2\<rparr>) =
      manpage_options (p\<lparr>action_groups := gs1 @ g\<lparr>group_actions := as1 @ as2\<rparr> # gs2\<rparr>)"
    using format_groups_cong [OF g, of gs1 gs2] by (simp add: manpage_options_def split: sum.splits)
  then have "regenerate_manpage (p\<lparr>action_groups := gs1 @ g\<lparr>group_actions := as1 @ a # as2\<rparr> # gs2\<rparr>)
             tmpname fs filename =
           regenerate_manpage (p\<lparr>action_groups := gs1 @ g\<lparr>group_actions := as1 @ as2\<rparr> # gs2\<rparr>)
             tmpname fs filename"
    by (simp add: regenerate_manpage_def)
  with a g show ?thesis by simp
qed

theorem format_action_suppressed_witness:
  "format_action hidden_action = Inr None \<and>
   format_group (debug_group\<lparr>group_actions := [hidden_action, version_action]\<rparr>) =
     Inr (''=== debug arguments\<newline>*-V*, *--version*::\<newline>    Show version and quit.\<newline>'')"
proof -
  have h: "help_text hidden_action = Some SUPPRESS" by (simp add: hidden_action_def SUPPRESS_def)
  have v: "format_group (debug_group\<lparr>group_actions := [] @ [version_action]\<rparr>) =
     Inr (''=== debug arguments\<newline>*-V*, *--version*::\<newline>    Show version and quit.\<newline>'')"
    by code_simp
  from format_action_suppressed [OF h, where g = debug_group and ?as1.0 = "[]"
      and ?as2.0 = "[version_action]"] v
  show ?thesis by simp
qed

section \<open>The usage formatter leaves the parser as it was\<close>

lemma patch_option_strings_distinct:
  "distinct as \<Longrightarrow>
   patch_option_strings as (store, old) =
     (\<lambda>a. if a \<in> set as
          then (store a)\<lparr>option_strings := map (\<lambda>s. ''*'' @ s @ ''*'') (option_strings (store a))\<rparr>
          else store a,
      \<lambda>a. if a \<in> set as then Some (option_strings (store a)) else old a)"
proof (induction as arbitrary: store old)
  case Nil
  then show ?case by simp
next
  case (Cons b as)
  from Cons.prems have b: "b \<notin> set as" and d: "distinct as" by simp_all
  show ?case
    unfolding patch_option_strings.simps Cons.IH [OF d]
    using b by (auto simp: fun_eq_iff)
qed

lemma restore_option_strings_saved:
  "\<forall>a \<in> set as. old a = Some (saved a) \<Longrightarrow>
   restore_option_strings as old store =
     (\<lambda>a. if a \<in> set as then (store a)\<lparr>option_strings := saved a\<rparr> else store a, Inr ())"
proof (induction as arbitrary: store)
  case Nil
  then show ?case by simp
next
  case (Cons b as)
  then have b: "old b = Some (saved b)" and rest: "\<forall>a \<in> set as. old a = Some (saved a)" by simp_all
  show ?case
    unfolding restore_option_strings.simps b option.case Cons.IH [OF rest]
    by (auto simp: fun_eq_iff)
qed

lemma format_actions_usage_distinct:
  assumes "distinct as"
  shows "format_actions_usage base store as grps =
    (case base (\<lambda>a. if a \<in> set as
          then (store a)\<lparr>option_strings := map (\<lambda>s. ''*'' @ s @ ''*'') (option_strings (store a))\<rparr>
          else store a) as grps of
       Inl e \<Rightarrow> (\<lambda>a. if a \<in> set as
          then (store a)\<lparr>option_strings := map (\<lambda>s. ''*'' @ s @ ''*'') (option_strings (store a))\<rparr>
          else store a, Inl e)
     | Inr ret \<Rightarrow> (store, Inr ret))"
proof -
  let ?s1 = "\<lambda>a. if a \<in> set as
          then (store a)\<lparr>option_strings := map (\<lambda>s. ''*'' @ s @ ''*'') (option_strings (store a))\<rparr>
          else store a"
  let ?old = "\<lambda>a. if a \<in> set as then Some (option_strings (store a)) else None"
  have p: "patch_option_strings as (store, Map.empty) = (?s1, ?old)"
    using patch_option_strings_distinct [OF assms, of store Map.empty] by simp
  have "\<forall>a \<in> set as. ?old a = Some (option_strings (store a))" by simp
  from restore_option_strings_saved [OF this, of ?s1]
  have r: "restore_option_strings as ?old ?s1 = (store, Inr ())"
    by (simp add: fun_eq_iff)
  show ?thesis
    unfolding format_actions_usage_def p
    by (simp add: r split: sum.splits)
qed

text \<open>Claim C9. When \<^verbatim>\<open>_format_actions_usage\<close> returns, the option strings of every
  action are the ones before the call; here \<^verbatim>\<open>actions\<close> holds each action object once, as
  the list of a parser's actions does. When \<^verbatim>\<open>_get_cmd_syntax\<close> returns, the parser's
  formatter class is the one before the call.\<close>

theorem usage_rendering_restores:
  "(distinct actions \<and> snd (format_actions_usage base store actions grps) = Inr ret \<longrightarrow>
      (\<forall>a. option_strings (fst (format_actions_usage base store actions grps) a) =
            option_strings (store a))) \<and>
   (snd (get_cmd_syntax format_usage cmd_name cmd) = Inr usage \<longrightarrow>
      formatter_class (parser (fst (get_cmd_syntax format_usage cmd_name cmd))) =
      formatter_class (parser cmd))"
proof (intro conjI impI)
  assume a: "distinct actions \<and> snd (format_actions_usage base store actions grps) = Inr ret"
  then have d: "distinct actions" by simp
  from a show "\<forall>a. option_strings (fst (format_actions_usage base store actions grps) a) =
            option_strings (store a)"
    unfolding format_actions_usage_distinct [OF d] by (auto split: sum.splits)
next
  assume "snd (get_cmd_syntax format_usage cmd_name cmd) = Inr usage"
  then show "formatter_class (parser (fst (get_cmd_syntax format_usage cmd_name cmd))) =
      formatter_class (parser cmd)"
    by (auto simp: get_cmd_syntax_def Let_def split: prod.splits sum.splits)
qed

theorem usage_rendering_restores_witness:
  "snd (format_actions_usage example_base example_store [0, 1] ()) =
     Inr ''*-V* *--version* *--no-err-windows*'' \<and>
   option_strings (fst (format_actions_usage example_base example_store [0, 1] ()) 0) =
     [''-V'', ''--version''] \<and>
   snd (get_cmd_syntax example_format_usage ''open'' open_cmd) = Inr ''open [*--tab*] url'' \<and>
   formatter_class (parser (fst (get_cmd_syntax example_format_usage ''open'' open_cmd))) =
     HelpFormatter"
proof -
  have d: "distinct [0, 1 :: nat]" by simp
  have s: "snd (format_actions_usage example_base example_store [0, 1] ()) =
     Inr ''*-V* *--version* *--no-err-windows*''" by code_simp
  have u: "snd (get_cmd_syntax example_format_usage ''open'' open_cmd) = Inr ''open [*--tab*] url''"
    by code_simp
  note t = usage_rendering_restores [of "[0, 1]" example_base example_store "()"
      "''*-V* *--version* *--no-err-windows*''" example_format_usage "''open''" open_cmd
      "''open [*--tab*] url''"]
  from conjunct1 [OF t] d s
  have "option_strings (fst (format_actions_usage example_base example_store [0, 1] ()) 0) =
     option_strings (example_store 0)" by blast
  then have a: "option_strings (fst (format_actions_usage example_base example_store [0, 1] ()) 0) =
     [''-V'', ''--version'']" by (simp add: example_store_def version_action_def)
  from conjunct2 [OF t] u
  have "formatter_class (parser (fst (get_cmd_syntax example_format_usage ''open'' open_cmd))) =
     formatter_class (parser open_cmd)" by blast
  then have b: "formatter_class (parser (fst (get_cmd_syntax example_format_usage ''open'' open_cmd))) =
     HelpFormatter" by (simp add: open_cmd_def)
  from s a u b show ?thesis by blast
qed

section \<open>The buckets of the command reference\<close>

lemma classify_commands_filter:
  "classify_commands registry (ns, os, ds) =
     (ns @ filter in_normal registry, os @ filter in_other registry, ds @ filter in_debug registry)"
  by (induction registry arbitrary: ns os ds)
     (auto simp: in_normal_def in_other_def in_debug_def)

lemma command_buckets_filter:
  "command_buckets registry =
     (sort_key fst (filter in_normal registry), sort_key fst (filter in_other registry),
      sort_key fst (filter in_debug registry))"
  by (simp add: command_buckets_def classify_commands_filter)

lemma command_buckets_not_deprecated:
  "command_buckets (filter (\<lambda>e. \<not> deprecated (snd e)) registry) = command_buckets registry"
proof -
  have "filter in_normal (filter (\<lambda>e. \<not> deprecated (snd e)) registry) = filter in_normal registry"
    "filter in_other (filter (\<lambda>e. \<not> deprecated (snd e)) registry) = filter in_other registry"
    "filter in_debug (filter (\<lambda>e. \<not> deprecated (snd e)) registry) = filter in_debug registry"
    by (auto simp: in_normal_def in_other_def in_debug_def intro: filter_cong)
  then show ?thesis by (simp add: command_buckets_filter)
qed

text \<open>Claim C6. Let \<^verbatim>\<open>normal_cmds\<close>, \<^verbatim>\<open>other_cmds\<close> and \<^verbatim>\<open>debug_cmds\<close> be the three
  lists that \<^verbatim>\<open>generate_commands\<close> writes, in this order. A registered command that is
  not deprecated is in \<^verbatim>\<open>other_cmds\<close> exactly when its modes do not contain the normal
  mode (whatever its debug flag), in \<^verbatim>\<open>debug_cmds\<close> exactly when they do and the debug
  flag is set, and in \<^verbatim>\<open>normal_cmds\<close> exactly when they do and it is not set. Together the
  lists hold the commands that are not deprecated, each as often as the registry does,
  and each list is sorted by name.\<close>

theorem command_buckets_classification:
  assumes "command_buckets registry = (normal_cmds, other_cmds, debug_cmds)"
  shows "(\<forall>n cmd. (n, cmd) \<in> set registry \<and> \<not> deprecated cmd \<longrightarrow>
            ((n, cmd) \<in> set other_cmds \<longleftrightarrow> normal \<notin> modes cmd) \<and>
            ((n, cmd) \<in> set debug_cmds \<longleftrightarrow> normal \<in> modes cmd \<and> debug cmd) \<and>
            ((n, cmd) \<in> set normal_cmds \<longleftrightarrow> normal \<in> modes cmd \<and> \<not> debug cmd)) \<and>
         mset (normal_cmds @ other_cmds @ debug_cmds) =
           mset (filter (\<lambda>e. \<not> deprecated (snd e)) registry) \<and>
         sorted (map fst normal_cmds) \<and> sorted (map fst other_cmds) \<and>
         sorted (map fst debug_cmds)"
proof -
  from assms have n: "normal_cmds = sort_key fst (filter in_normal registry)"
    and o: "other_cmds = sort_key fst (filter in_other registry)"
    and d: "debug_cmds = sort_key fst (filter in_debug registry)"
    by (simp_all add: command_buckets_filter)
  have members: "\<forall>n cmd. (n, cmd) \<in> set registry \<and> \<not> deprecated cmd \<longrightarrow>
            ((n, cmd) \<in> set other_cmds \<longleftrightarrow> normal \<notin> modes cmd) \<and>
            ((n, cmd) \<in> set debug_cmds \<longleftrightarrow> normal \<in> modes cmd \<and> debug cmd) \<and>
            ((n, cmd) \<in> set normal_cmds \<longleftrightarrow> normal \<in> modes cmd \<and> \<not> debug cmd)"
    by (auto simp: n o d in_normal_def in_other_def in_debug_def)
  have "mset (filter in_normal registry) + mset (filter in_other registry)
        + mset (filter in_debug registry) = mset (filter (\<lambda>e. \<not> deprecated (snd e)) registry)"
    by (induction registry) (auto simp: in_normal_def in_other_def in_debug_def)
  then have count: "mset (normal_cmds @ other_cmds @ debug_cmds) =
           mset (filter (\<lambda>e. \<not> deprecated (snd e)) registry)"
    by (simp add: n o d add.assoc)
  have order: "sorted (map fst normal_cmds)" "sorted (map fst other_cmds)"
    "sorted (map fst debug_cmds)"
    by (simp_all add: n o d)
  from members count order show ?thesis by blast
qed

theorem command_buckets_classification_witness:
  "debug hint_cmd \<and>
   (''follow-hint'', hint_cmd) \<in> set (fst (snd (command_buckets example_registry))) \<and>
   (''follow-hint'', hint_cmd) \<notin> set (snd (snd (command_buckets example_registry))) \<and>
   (''debug-crash'', crash_cmd) \<in> set (snd (snd (command_buckets example_registry))) \<and>
   (''open'', open_cmd) \<in> set (fst (command_buckets example_registry)) \<and>
   sorted (map fst (fst (command_buckets example_registry)))"
proof -
  obtain ns os ds where cb: "command_buckets example_registry = (ns, os, ds)"
    by (cases "command_buckets example_registry") auto
  note t = command_buckets_classification [OF cb]
  have h: "(''follow-hint'', hint_cmd) \<in> set example_registry \<and> \<not> deprecated hint_cmd"
    by (simp add: example_registry_def hint_cmd_def open_cmd_def)
  have hm: "normal \<notin> modes hint_cmd" "debug hint_cmd" by (simp_all add: hint_cmd_def open_cmd_def)
  have c: "(''debug-crash'', crash_cmd) \<in> set example_registry \<and> \<not> deprecated crash_cmd"
    by (simp add: example_registry_def crash_cmd_def open_cmd_def)
  have cm: "normal \<in> modes crash_cmd" "debug crash_cmd" by (simp_all add: crash_cmd_def open_cmd_def)
  have p: "(''open'', open_cmd) \<in> set example_registry \<and> \<not> deprecated open_cmd"
    by (simp add: example_registry_def open_cmd_def)
  have pm: "normal \<in> modes open_cmd" "\<not> debug open_cmd" by (simp_all add: open_cmd_def)
  from t h hm have 1: "(''follow-hint'', hint_cmd) \<in> set os" "(''follow-hint'', hint_cmd) \<notin> set ds"
    by blast+
  from t c cm have 2: "(''debug-crash'', crash_cmd) \<in> set ds" by blast
  from t p pm have 3: "(''open'', open_cmd) \<in> set ns" by blast
  from t have 4: "sorted (map fst ns)" by blast
  from 1 2 3 4 hm show ?thesis by (simp add: cb)
qed

text \<open>Claim C7. No deprecated command is in any of the three lists from which the quick
  reference tables and the sections are written, and \<^verbatim>\<open>generate_commands\<close> writes the text
  that it writes for the registry without the deprecated commands, whatever their modes
  and debug flags.\<close>

theorem deprecated_commands_omitted:
  "(\<forall>e \<in> set (fst (command_buckets registry)) \<union> set (fst (snd (command_buckets registry)))
          \<union> set (snd (snd (command_buckets registry))). \<not> deprecated (snd e)) \<and>
   generate_commands format_usage commands_doc registry =
     generate_commands format_usage commands_doc (filter (\<lambda>e. \<not> deprecated (snd e)) registry)"
proof
  show "\<forall>e \<in> set (fst (command_buckets registry)) \<union> set (fst (snd (command_buckets registry)))
          \<union> set (snd (snd (command_buckets registry))). \<not> deprecated (snd e)"
    by (auto simp: command_buckets_filter in_normal_def in_other_def in_debug_def)
  show "generate_commands format_usage commands_doc registry =
     generate_commands format_usage commands_doc (filter (\<lambda>e. \<not> deprecated (snd e)) registry)"
    by (simp add: generate_commands_def command_buckets_not_deprecated)
qed

theorem deprecated_commands_omitted_witness:
  "deprecated old_cmd \<and>
   (''old-open'', old_cmd) \<notin> set (fst (command_buckets example_registry)) \<and>
   (''old-open'', old_cmd) \<notin> set (fst (snd (command_buckets example_registry))) \<and>
   (''old-open'', old_cmd) \<notin> set (snd (snd (command_buckets example_registry))) \<and>
   generate_commands example_format_usage ''Commands.'' example_registry =
     generate_commands example_format_usage ''Commands.''
       [(''open'', open_cmd), (''follow-hint'', hint_cmd), (''debug-crash'', crash_cmd),
        (''back'', back_cmd)]"
proof -
  note t = deprecated_commands_omitted [of example_registry example_format_usage "''Commands.''"]
  have d: "deprecated old_cmd" by (simp add: old_cmd_def)
  have f: "filter (\<lambda>e. \<not> deprecated (snd e)) example_registry =
     [(''open'', open_cmd), (''follow-hint'', hint_cmd), (''debug-crash'', crash_cmd),
        (''back'', back_cmd)]"
    by (simp add: example_registry_def old_cmd_def hint_cmd_def crash_cmd_def back_cmd_def open_cmd_def)
  from conjunct1 [OF t] d have 1:
    "(''old-open'', old_cmd) \<notin> set (fst (command_buckets example_registry))"
    "(''old-open'', old_cmd) \<notin> set (fst (snd (command_buckets example_registry)))"
    "(''old-open'', old_cmd) \<notin> set (snd (snd (command_buckets example_registry)))"
    by (auto dest!: bspec [where x = "(''old-open'', old_cmd)"])
  from conjunct2 [OF t] f have 2:
    "generate_commands example_format_usage ''Commands.'' example_registry =
     generate_commands example_format_usage ''Commands.''
       [(''open'', open_cmd), (''follow-hint'', hint_cmd), (''debug-crash'', crash_cmd),
        (''back'', back_cmd)]" by simp
  from d 1 2 show ?thesis by blast
qed

section \<open>Missing descriptions\<close>

lemma pos_args_docs_result:
  "pos_args_docs n descs args =
     (case filter (\<lambda>k. descs k = None) (map fst args) of
        [] \<Rightarrow> Inr (map (\<lambda>(arg, nm). ''* +'' @ quoted nm @ ''+: '' @ the (descs arg)) args)
      | k # _ \<Rightarrow> Inl (KeyError (''No description for arg '' @ quoted k @ '' of command ''
                         @ quoted n @ ''!'')))"
proof (induction args)
  case Nil
  then show ?case by simp
next
  case (Cons a args)
  obtain arg nm where a: "a = (arg, nm)" by (cases a)
  show ?case
  proof (cases "descs arg")
    case None
    then show ?thesis by (simp add: a)
  next
    case (Some d)
    then show ?thesis using Cons.IH by (simp add: a split: list.splits)
  qed
qed

lemma opt_args_docs_result:
  "opt_args_docs n descs args =
     (case filter (\<lambda>k. descs k = None) (map fst args) of
        [] \<Rightarrow> Inr (map (\<lambda>(arg, long_flag, short_flag).
                 ''* +*'' @ short_flag @ ''*+, +*'' @ long_flag @ ''*+: '' @ the (descs arg)) args)
      | k # _ \<Rightarrow> Inl (KeyError (''No description for arg '' @ quoted k @ '' of command ''
                         @ quoted n @ ''!'')))"
proof (induction args)
  case Nil
  then show ?case by simp
next
  case (Cons a args)
  obtain arg lf sf where a: "a = (arg, lf, sf)" by (cases a)
  show ?case
  proof (cases "descs arg")
    case None
    then show ?thesis by (simp add: a)
  next
    case (Some d)
    then show ?thesis using Cons.IH by (simp add: a split: list.splits)
  qed
qed

lemma count_docs_result:
  "count_docs n descs params =
     (case filter (\<lambda>p. is_count p \<and> descs (param_name p) = None \<and> descs ''count'' = None) params of
        [] \<Rightarrow> Inr (concat (map (\<lambda>p. [[], ''==== count'',
                 (case descs (param_name p) of Some d \<Rightarrow> d | None \<Rightarrow> the (descs ''count''))])
               (filter is_count params)))
      | p # _ \<Rightarrow> Inl (KeyError (''No description for count arg '' @ quoted (param_name p)
                                       @ '' of command '' @ quoted n @ ''!'')))"
proof (induction params)
  case Nil
  then show ?case by simp
next
  case (Cons p params)
  show ?case
  proof (cases "is_count p")
    case False
    then show ?thesis using Cons.IH by (simp split: list.splits)
  next
    case True
    show ?thesis
    proof (cases "descs (param_name p)")
      case (Some d)
      then show ?thesis using True Cons.IH by (simp split: list.splits)
    next
      case None
      show ?thesis
      proof (cases "descs ''count''")
        case None
        with \<open>descs (param_name p) = None\<close> True show ?thesis by simp
      next
        case (Some d)
        with \<open>descs (param_name p) = None\<close> True Cons.IH show ?thesis
          by (simp split: list.splits)
      qed
    qed
  qed
qed

lemma get_command_doc_args_missing:
  assumes "missing_arg_keys cmd p = k # ks"
  shows "get_command_doc_args cmd p =
     Inl (KeyError (''No description for arg '' @ quoted k @ '' of command ''
                    @ quoted (name cmd) @ ''!''))"
proof (cases "filter (\<lambda>k. arg_descs p k = None) (map fst (pos_args cmd))")
  case Nil
  with assms have o: "filter (\<lambda>k. arg_descs p k = None) (map fst (opt_args cmd)) = k # ks"
    by (simp add: missing_arg_keys_def)
  then have ne: "opt_args cmd \<noteq> []" by auto
  show ?thesis
    unfolding get_command_doc_args_def pos_args_docs_result opt_args_docs_result
    using Nil o ne by simp
next
  case (Cons k' ks')
  with assms have "k' = k" by (simp add: missing_arg_keys_def)
  with Cons have ne: "pos_args cmd \<noteq> []" by auto
  show ?thesis
    unfolding get_command_doc_args_def pos_args_docs_result
    using Cons \<open>k' = k\<close> ne by simp
qed

lemma get_command_doc_args_complete:
  assumes "missing_arg_keys cmd p = []"
  shows "\<exists>out. get_command_doc_args cmd p = Inr out"
proof -
  from assms have "filter (\<lambda>k. arg_descs p k = None) (map fst (pos_args cmd)) = []"
    "filter (\<lambda>k. arg_descs p k = None) (map fst (opt_args cmd)) = []"
    by (simp_all add: missing_arg_keys_def)
  then show ?thesis
    unfolding get_command_doc_args_def pos_args_docs_result opt_args_docs_result
    by simp
qed

lemma get_command_doc_count_missing:
  assumes "missing_count_params cmd p = q # qs"
  shows "get_command_doc_count cmd p =
     Inl (KeyError (''No description for count arg '' @ quoted q @ '' of command ''
                    @ quoted (name cmd) @ ''!''))"
  using assms unfolding get_command_doc_count_def count_docs_result missing_count_params_def
  by (auto split: list.splits)

lemma get_command_doc_count_complete:
  assumes "missing_count_params cmd p = []"
  shows "\<exists>out. get_command_doc_count cmd p = Inr out"
  using assms unfolding get_command_doc_count_def count_docs_result missing_count_params_def
  by (auto split: list.splits)

text \<open>Claim C5. If an argument key of the command, positional or optional, has no
  description, \<^verbatim>\<open>_get_command_doc_args\<close> raises \<^verbatim>\<open>KeyError\<close> with a message that names
  the first such key and the command. If a count parameter has no description under its
  name nor under \<^verbatim>\<open>'count'\<close>, \<^verbatim>\<open>_get_command_doc_count\<close> raises \<^verbatim>\<open>KeyError\<close> with a
  message that names the parameter and the command. Otherwise they return their lines.
  When the syntax line is rendered, \<^verbatim>\<open>_get_command_doc\<close> returns the documentation exactly
  when no description is missing.\<close>

theorem command_doc_missing_description:
  "(\<forall>k ks. missing_arg_keys cmd p = k # ks \<longrightarrow>
      get_command_doc_args cmd p =
        Inl (KeyError (''No description for arg '' @ quoted k @ '' of command ''
                       @ quoted (name cmd) @ ''!''))) \<and>
   (missing_arg_keys cmd p = [] \<longrightarrow> (\<exists>out. get_command_doc_args cmd p = Inr out)) \<and>
   (\<forall>q qs. missing_count_params cmd p = q # qs \<longrightarrow>
      get_command_doc_count cmd p =
        Inl (KeyError (''No description for count arg '' @ quoted q @ '' of command ''
                       @ quoted (name cmd) @ ''!''))) \<and>
   (missing_count_params cmd p = [] \<longrightarrow> (\<exists>out. get_command_doc_count cmd p = Inr out)) \<and>
   (snd (get_cmd_syntax format_usage n cmd) = Inr syntax \<longrightarrow>
      ((\<exists>doc. get_command_doc format_usage n cmd = Inr doc) \<longleftrightarrow>
       missing_arg_keys cmd (docstring (handler cmd)) = [] \<and>
       missing_count_params cmd (docstring (handler cmd)) = []))"
proof -
  have whole: "(\<exists>doc. get_command_doc format_usage n cmd = Inr doc) \<longleftrightarrow>
       missing_arg_keys cmd (docstring (handler cmd)) = [] \<and>
       missing_count_params cmd (docstring (handler cmd)) = []"
    if syn: "snd (get_cmd_syntax format_usage n cmd) = Inr syntax"
  proof (cases "missing_arg_keys cmd (docstring (handler cmd))")
    case (Cons k ks)
    from get_command_doc_args_missing [OF this] show ?thesis
      using Cons by (simp add: get_command_doc_def syn Let_def)
  next
    case Nil
    from get_command_doc_args_complete [OF this] obtain args where
      args: "get_command_doc_args cmd (docstring (handler cmd)) = Inr args" by blast
    show ?thesis
    proof (cases "missing_count_params cmd (docstring (handler cmd))")
      case (Cons q qs)
      from get_command_doc_count_missing [OF this] show ?thesis
        using Cons Nil by (simp add: get_command_doc_def syn Let_def args)
    next
      case Nil2: Nil
      from get_command_doc_count_complete [OF this] obtain cnt where
        "get_command_doc_count cmd (docstring (handler cmd)) = Inr cnt" by blast
      then show ?thesis
        using Nil Nil2 by (simp add: get_command_doc_def syn Let_def args)
    qed
  qed
  from whole get_command_doc_args_missing get_command_doc_args_complete
    get_command_doc_count_missing get_command_doc_count_complete
  show ?thesis by blast
qed

theorem command_doc_missing_description_witness:
  "get_command_doc_args paste_cmd (docstring (handler paste_cmd)) =
     Inl (KeyError (''No description for arg '' @ quoted ''text'' @ '' of command ''
                    @ quoted ''paste'' @ ''!'')) \<and>
   get_command_doc_count zoom_cmd (docstring (handler zoom_cmd)) =
     Inl (KeyError (''No description for count arg '' @ quoted ''level'' @ '' of command ''
                    @ quoted ''zoom'' @ ''!'')) \<and>
   (\<exists>doc. get_command_doc example_format_usage ''open'' open_cmd = Inr doc)"
proof -
  have m1: "missing_arg_keys paste_cmd (docstring (handler paste_cmd)) = ''text'' # []"
    by (simp add: missing_arg_keys_def paste_cmd_def open_cmd_def)
  have m2: "missing_count_params zoom_cmd (docstring (handler zoom_cmd)) = ''level'' # []"
    by (simp add: missing_count_params_def zoom_cmd_def open_cmd_def)
  have m3: "missing_arg_keys open_cmd (docstring (handler open_cmd)) = []"
    by (simp add: missing_arg_keys_def open_cmd_def)
  have m4: "missing_count_params open_cmd (docstring (handler open_cmd)) = []"
    by (simp add: missing_count_params_def open_cmd_def)
  have u: "snd (get_cmd_syntax example_format_usage ''open'' open_cmd) = Inr ''open [*--tab*] url''"
    by code_simp
  have n1: "name paste_cmd = ''paste''" by (simp add: paste_cmd_def)
  have n2: "name zoom_cmd = ''zoom''" by (simp add: zoom_cmd_def)
  note t1 = command_doc_missing_description [of paste_cmd "docstring (handler paste_cmd)"]
  note t2 = command_doc_missing_description [of zoom_cmd "docstring (handler zoom_cmd)"]
  note t3 = command_doc_missing_description [of open_cmd "docstring (handler open_cmd)"
      example_format_usage "''open''" "''open [*--tab*] url''"]
  from t1 m1 have a: "get_command_doc_args paste_cmd (docstring (handler paste_cmd)) =
     Inl (KeyError (''No description for arg '' @ quoted ''text'' @ '' of command ''
                    @ quoted (name paste_cmd) @ ''!''))" by blast
  from t2 m2 have b: "get_command_doc_count zoom_cmd (docstring (handler zoom_cmd)) =
     Inl (KeyError (''No description for count arg '' @ quoted ''level'' @ '' of command ''
                    @ quoted (name zoom_cmd) @ ''!''))" by blast
  from t3 m3 m4 u have c: "\<exists>doc. get_command_doc example_format_usage ''open'' open_cmd = Inr doc"
    by blast
  from a b c show ?thesis by (simp only: n1 n2 simp_thms)
qed

section \<open>Backend information of a setting\<close>

lemma write_raw_backends_notices:
  "write_raw_backends items f = f @ concat (map spec_override_notice items)"
  by (induction items f rule: write_raw_backends.induct) simp_all

text \<open>Claim C4. With an override mapping, whatever the list of backends is, the text
  written is, for each entry in the order of the backend names, nothing for \<open>True\<close>, the
  "unavailable" notice for \<open>False\<close> and the "requires ... or newer" notice for any other
  value. Without one, the list of both backends writes nothing, the list of QtWebKit alone
  writes the QtWebKit notice only, the list of QtWebEngine alone writes the QtWebEngine
  notice only, and any other list raises \<^verbatim>\<open>ValueError\<close> with nothing written.\<close>

theorem setting_backend_info_cases:
  "(\<forall>items. raw_backends opt = Some items \<longrightarrow>
      generate_setting_backend_info repr_backends f opt =
        Inr (f @ concat (map spec_override_notice (sort_key fst items)))) \<and>
   (raw_backends opt = None \<and> backends opt = [QtWebKit, QtWebEngine] \<longrightarrow>
      generate_setting_backend_info repr_backends f opt = Inr f) \<and>
   (raw_backends opt = None \<and> backends opt = [QtWebKit] \<longrightarrow>
      generate_setting_backend_info repr_backends f opt =
        Inr (f @ ''\<newline>This setting is only available with the QtWebKit backend.\<newline>'')) \<and>
   (raw_backends opt = None \<and> backends opt = [QtWebEngine] \<longrightarrow>
      generate_setting_backend_info repr_backends f opt =
        Inr (f @ ''\<newline>This setting is only available with the QtWebEngine backend.\<newline>'')) \<and>
   (raw_backends opt = None \<and> backends opt \<noteq> [QtWebKit, QtWebEngine] \<and>
    backends opt \<noteq> [QtWebKit] \<and> backends opt \<noteq> [QtWebEngine] \<longrightarrow>
      generate_setting_backend_info repr_backends f opt =
        Inl (ValueError (''Invalid value '' @ repr_backends (backends opt)
                         @ '' for opt.backends'')))"
  by (simp add: generate_setting_backend_info_def write_raw_backends_notices)

theorem setting_backend_info_cases_witness:
  "generate_setting_backend_info example_repr [] webkit_only_option =
     Inr ''\<newline>This setting is only available with the QtWebKit backend.\<newline>'' \<and>
   generate_setting_backend_info example_repr [] override_option =
     Inr (''\<newline>On QtWebEngine, this setting requires Qt 5.15 or newer.\<newline>''
          @ ''\<newline>On QtWebKit, this setting is unavailable.\<newline>'') \<and>
   generate_setting_backend_info example_repr [] reversed_option =
     Inl (ValueError ''Invalid value [<Backend.QtWebEngine: 2>, <Backend.QtWebKit: 1>] for opt.backends'')"
proof -
  note t1 = setting_backend_info_cases [of webkit_only_option example_repr "[]"]
  note t2 = setting_backend_info_cases [of override_option example_repr "[]"]
  note t3 = setting_backend_info_cases [of reversed_option example_repr "[]"]
  have s: "sort_key fst [(''QtWebKit'', Boolean False), (''QtWebEngine'', OtherValue ''Qt 5.15'')] =
     [(''QtWebEngine'', OtherValue ''Qt 5.15''), (''QtWebKit'', Boolean False)]"
    by code_simp
  have r: "example_repr [QtWebEngine, QtWebKit] = ''[<Backend.QtWebEngine: 2>, <Backend.QtWebKit: 1>]''"
    by code_simp
  have a: "generate_setting_backend_info example_repr [] webkit_only_option =
     Inr ''\<newline>This setting is only available with the QtWebKit backend.\<newline>''"
    using t1 by (simp add: webkit_only_option_def)
  have "raw_backends override_option = Some [(''QtWebKit'', Boolean False),
       (''QtWebEngine'', OtherValue ''Qt 5.15'')]" by (simp add: override_option_def)
  with t2 have "generate_setting_backend_info example_repr [] override_option =
     Inr ([] @ concat (map spec_override_notice (sort_key fst [(''QtWebKit'', Boolean False),
       (''QtWebEngine'', OtherValue ''Qt 5.15'')])))" by blast
  then have b: "generate_setting_backend_info example_repr [] override_option =
     Inr (''\<newline>On QtWebEngine, this setting requires Qt 5.15 or newer.\<newline>''
          @ ''\<newline>On QtWebKit, this setting is unavailable.\<newline>'')"
    by (simp add: s)
  have "raw_backends reversed_option = None \<and> backends reversed_option \<noteq> [QtWebKit, QtWebEngine] \<and>
    backends reversed_option \<noteq> [QtWebKit] \<and> backends reversed_option \<noteq> [QtWebEngine]"
    by (simp add: reversed_option_def)
  with t3 have "generate_setting_backend_info example_repr [] reversed_option =
        Inl (ValueError (''Invalid value '' @ example_repr (backends reversed_option)
                         @ '' for opt.backends''))" by blast
  then have c: "generate_setting_backend_info example_repr [] reversed_option =
     Inl (ValueError ''Invalid value [<Backend.QtWebEngine: 2>, <Backend.QtWebKit: 1>] for opt.backends'')"
    by (simp add: reversed_option_def r)
  from a b c show ?thesis by blast
qed

section \<open>The argument string of an action\<close>

text \<open>What \<^verbatim>\<open>_format_action_args\<close> returns for each arity, \<open>mv\<close> being what
  \<^verbatim>\<open>_get_action_metavar(action)\<close> returns. For an integer arity, only an explicit string
  metavar is repeated; a tuple is used as it is, and so is the default metavar (the
  choices or the upper-cased destination).\<close>

lemma format_action_args_arities:
  "get_action_metavar action (NargsInt 1) = Inr mv \<Longrightarrow>
   (nargs action = None \<longrightarrow> format_action_args action = Inr mv) \<and>
   (nargs action = Some (NargsStr ''?'') \<longrightarrow> format_action_args action = Inr (''['' @ mv @ '']'')) \<and>
   (nargs action = Some (NargsStr ''*'') \<longrightarrow>
      format_action_args action = Inr (''['' @ mv @ '' ['' @ mv @ '' ...]]'')) \<and>
   (nargs action = Some (NargsStr ''+'') \<longrightarrow>
      format_action_args action = Inr (mv @ '' ['' @ mv @ '' ...]'')) \<and>
   (nargs action = Some (NargsStr ''...'') \<longrightarrow> format_action_args action = Inr ''...'') \<and>
   (\<forall>k. nargs action = Some (NargsInt k) \<longrightarrow>
      format_action_args action =
        (case metavar action of
           Some (MetavarStr s) \<Rightarrow> Inr (join '' '' (replicate (nat k) (quoted s)))
         | Some (MetavarTuple elems) \<Rightarrow> Inr (join '' '' (map quoted elems))
         | None \<Rightarrow> Inr mv))"
  by (auto simp: format_action_args_def get_action_metavar_def
           split: option.splits metavar_value.splits)

text \<open>Claim C3. The claim says that an exact integer arity \<open>N\<close> renders the metavar
  \<open>N\<close> times. For the option \<^verbatim>\<open>--size\<close> with \<^verbatim>\<open>nargs=2\<close> and no explicit metavar,
  \<^verbatim>\<open>_format_action_args\<close> returns the default metavar \<^verbatim>\<open>'SIZE'\<close> once, and
  \<^verbatim>\<open>_format_action\<close> renders \<^verbatim>\<open>*--size* 'SIZE'::\<close>; with the same text as explicit
  metavar it returns \<^verbatim>\<open>'SIZE' 'SIZE'\<close>.\<close>

theorem format_action_args_default_metavar_once:
  "format_action_args size_action = Inr (quoted ''SIZE'') \<and>
   format_action size_action =
     Inr (Some (''*--size* '' @ quoted ''SIZE'' @ ''::\<newline>    Width and height.\<newline>'')) \<and>
   format_action_args (size_action\<lparr>metavar := Some (MetavarStr ''SIZE'')\<rparr>) =
     Inr (quoted ''SIZE'' @ '' '' @ quoted ''SIZE'')"
  by code_simp

end
